theory Spec2Isabelle
  imports Complex_Main "HOL-Library.AList"
begin

section \<open>JavaScript numbers\<close>

text \<open>
  A JavaScript number is an IEEE-754 double. The model keeps the three special values
  the program can produce (\<open>Infinity\<close>, \<open>-Infinity\<close>, \<open>NaN\<close>) and represents every other
  number by a real: rounding and overflow of finite results are not modelled, and the
  two zeros are identified (every zero denominator of the program is a \<open>+0\<close>: a
  \<open>Math.sqrt\<close> result, a \<open>clientHeight\<close>, a power of a non-negative number).
\<close>

datatype jsnum = Fin real | PInf | NInf | NaN

fun jneg :: "jsnum \<Rightarrow> jsnum" where
  "jneg (Fin a) = Fin (- a)"
| "jneg PInf = NInf"
| "jneg NInf = PInf"
| "jneg NaN = NaN"

fun jadd :: "jsnum \<Rightarrow> jsnum \<Rightarrow> jsnum" where
  "jadd (Fin a) (Fin b) = Fin (a + b)"
| "jadd (Fin a) PInf = PInf"
| "jadd (Fin a) NInf = NInf"
| "jadd PInf (Fin b) = PInf"
| "jadd NInf (Fin b) = NInf"
| "jadd PInf PInf = PInf"
| "jadd NInf NInf = NInf"
| "jadd PInf NInf = NaN"
| "jadd NInf PInf = NaN"
| "jadd NaN b = NaN"
| "jadd a NaN = NaN"

definition jsub :: "jsnum \<Rightarrow> jsnum \<Rightarrow> jsnum" where
  "jsub a b = jadd a (jneg b)"

text \<open>The sign of an infinite product or quotient: \<open>Infinity\<close> times zero is \<open>NaN\<close>.\<close>

definition inf_signed :: "real \<Rightarrow> jsnum" where
  "inf_signed a = (if a = 0 then NaN else if 0 < a then PInf else NInf)"

fun jmul :: "jsnum \<Rightarrow> jsnum \<Rightarrow> jsnum" where
  "jmul (Fin a) (Fin b) = Fin (a * b)"
| "jmul (Fin a) PInf = inf_signed a"
| "jmul (Fin a) NInf = inf_signed (- a)"
| "jmul PInf (Fin b) = inf_signed b"
| "jmul NInf (Fin b) = inf_signed (- b)"
| "jmul PInf PInf = PInf"
| "jmul NInf NInf = PInf"
| "jmul PInf NInf = NInf"
| "jmul NInf PInf = NInf"
| "jmul NaN b = NaN"
| "jmul a NaN = NaN"

text \<open>
  Division never raises in JavaScript: a non-zero number over zero is an infinity,
  zero over zero is \<open>NaN\<close>, a finite number over an infinity is zero.
\<close>

fun jdiv :: "jsnum \<Rightarrow> jsnum \<Rightarrow> jsnum" where
  "jdiv (Fin a) (Fin b) = (if b = 0 then inf_signed a else Fin (a / b))"
| "jdiv (Fin a) PInf = Fin 0"
| "jdiv (Fin a) NInf = Fin 0"
| "jdiv PInf (Fin b) = (if 0 \<le> b then PInf else NInf)"
| "jdiv NInf (Fin b) = (if 0 \<le> b then NInf else PInf)"
| "jdiv PInf PInf = NaN"
| "jdiv NInf NInf = NaN"
| "jdiv PInf NInf = NaN"
| "jdiv NInf PInf = NaN"
| "jdiv NaN b = NaN"
| "jdiv a NaN = NaN"

text \<open>The comparison \<open>a < b\<close>; every comparison with \<open>NaN\<close> is false.\<close>

fun jlt :: "jsnum \<Rightarrow> jsnum \<Rightarrow> bool" where
  "jlt (Fin a) (Fin b) = (a < b)"
| "jlt (Fin a) PInf = True"
| "jlt NInf (Fin b) = True"
| "jlt NInf PInf = True"
| "jlt a b = False"

fun jle :: "jsnum \<Rightarrow> jsnum \<Rightarrow> bool" where
  "jle (Fin a) (Fin b) = (a \<le> b)"
| "jle (Fin a) PInf = True"
| "jle NInf (Fin b) = True"
| "jle NInf PInf = True"
| "jle PInf PInf = True"
| "jle NInf NInf = True"
| "jle (Fin a) NInf = False"
| "jle PInf (Fin b) = False"
| "jle PInf NInf = False"
| "jle NaN b = False"
| "jle a NaN = False"

text \<open>\<open>Math.max\<close> and \<open>Math.min\<close> return \<open>NaN\<close> as soon as one argument is \<open>NaN\<close>.\<close>

fun Math_max :: "jsnum \<Rightarrow> jsnum \<Rightarrow> jsnum" where
  "Math_max NaN b = NaN"
| "Math_max a NaN = NaN"
| "Math_max a b = (if jlt a b then b else a)"

fun Math_min :: "jsnum \<Rightarrow> jsnum \<Rightarrow> jsnum" where
  "Math_min NaN b = NaN"
| "Math_min a NaN = NaN"
| "Math_min a b = (if jlt b a then b else a)"

fun Math_abs :: "jsnum \<Rightarrow> jsnum" where
  "Math_abs (Fin a) = Fin \<bar>a\<bar>"
| "Math_abs PInf = PInf"
| "Math_abs NInf = PInf"
| "Math_abs NaN = NaN"

fun Math_sqrt :: "jsnum \<Rightarrow> jsnum" where
  "Math_sqrt (Fin a) = (if a < 0 then NaN else Fin (sqrt a))"
| "Math_sqrt PInf = PInf"
| "Math_sqrt NInf = NaN"
| "Math_sqrt NaN = NaN"

text \<open>
  \<open>Math.pow(b, e)\<close> for the exponents the program uses, all finite and positive
  (\<open>0.1\<close>, \<open>1\<close> and \<open>3\<close>): a whole exponent is a repeated product, a fractional power of
  a negative base is \<open>NaN\<close>.
\<close>

definition whole :: "real \<Rightarrow> bool" where
  "whole e = (e = of_int \<lfloor>e\<rfloor>)"

fun Math_pow :: "jsnum \<Rightarrow> real \<Rightarrow> jsnum" where
  "Math_pow (Fin a) e =
     (if whole e then Fin (a ^ nat \<lfloor>e\<rfloor>) else if a < 0 then NaN else Fin (a powr e))"
| "Math_pow PInf e = PInf"
| "Math_pow NInf e = (if whole e \<and> odd \<lfloor>e\<rfloor> then NInf else PInf)"
| "Math_pow NaN e = NaN"

fun Math_sin :: "jsnum \<Rightarrow> jsnum" where
  "Math_sin (Fin a) = Fin (sin a)"
| "Math_sin a = NaN"

fun Math_cos :: "jsnum \<Rightarrow> jsnum" where
  "Math_cos (Fin a) = Fin (cos a)"
| "Math_cos a = NaN"

fun Math_tan :: "jsnum \<Rightarrow> jsnum" where
  "Math_tan (Fin a) = Fin (tan a)"
| "Math_tan a = NaN"

fun Math_acos :: "jsnum \<Rightarrow> jsnum" where
  "Math_acos (Fin a) = (if - 1 \<le> a \<and> a \<le> 1 then Fin (arccos a) else NaN)"
| "Math_acos a = NaN"

text \<open>\<open>Math.atan2(y, x)\<close>: the angle of the point \<open>(x, y)\<close>, in \<open>(-\<pi>, \<pi>]\<close>.\<close>

fun Math_atan2 :: "jsnum \<Rightarrow> jsnum \<Rightarrow> jsnum" where
  "Math_atan2 (Fin b) (Fin a) =
     (if 0 < a then Fin (arctan (b / a))
      else if a < 0 then (if 0 \<le> b then Fin (arctan (b / a) + pi) else Fin (arctan (b / a) - pi))
      else if 0 < b then Fin (pi / 2)
      else if b < 0 then Fin (- pi / 2)
      else Fin 0)"
| "Math_atan2 (Fin b) PInf = Fin 0"
| "Math_atan2 (Fin b) NInf = (if 0 \<le> b then Fin pi else Fin (- pi))"
| "Math_atan2 PInf (Fin a) = Fin (pi / 2)"
| "Math_atan2 NInf (Fin a) = Fin (- pi / 2)"
| "Math_atan2 PInf PInf = Fin (pi / 4)"
| "Math_atan2 PInf NInf = Fin (3 * pi / 4)"
| "Math_atan2 NInf PInf = Fin (- pi / 4)"
| "Math_atan2 NInf NInf = Fin (- 3 * pi / 4)"
| "Math_atan2 NaN a = NaN"
| "Math_atan2 b NaN = NaN"

definition Math_PI :: jsnum where
  "Math_PI = Fin pi"

definition is_finite :: "jsnum \<Rightarrow> bool" where
  "is_finite a = (case a of Fin r \<Rightarrow> True | _ \<Rightarrow> False)"


section \<open>Vectors and spherical coordinates of the graphics runtime\<close>

text \<open>
  The program runs on the Three.js runtime. The methods of \<open>Vector2\<close>, \<open>Vector3\<close> and
  \<open>Spherical\<close> that the program calls are modelled here from the library's own
  definitions; objects mutated in place in the source are returned updated.
\<close>

record vec2 =
  ux :: jsnum
  uy :: jsnum

record vec3 =
  vx :: jsnum
  vy :: jsnum
  vz :: jsnum

record spherical =
  radius :: jsnum
  phi :: jsnum
  theta :: jsnum

definition Vector2 :: "jsnum \<Rightarrow> jsnum \<Rightarrow> vec2" where
  "Vector2 a b = \<lparr>ux = a, uy = b\<rparr>"

definition subVectors2 :: "vec2 \<Rightarrow> vec2 \<Rightarrow> vec2" where
  "subVectors2 a b = \<lparr>ux = jsub (ux a) (ux b), uy = jsub (uy a) (uy b)\<rparr>"

definition multiplyScalar2 :: "vec2 \<Rightarrow> jsnum \<Rightarrow> vec2" where
  "multiplyScalar2 v k = \<lparr>ux = jmul (ux v) k, uy = jmul (uy v) k\<rparr>"

definition Vector3 :: "jsnum \<Rightarrow> jsnum \<Rightarrow> jsnum \<Rightarrow> vec3" where
  "Vector3 a b c = \<lparr>vx = a, vy = b, vz = c\<rparr>"

definition add :: "vec3 \<Rightarrow> vec3 \<Rightarrow> vec3" where
  "add v w = \<lparr>vx = jadd (vx v) (vx w), vy = jadd (vy v) (vy w), vz = jadd (vz v) (vz w)\<rparr>"

definition sub :: "vec3 \<Rightarrow> vec3 \<Rightarrow> vec3" where
  "sub v w = \<lparr>vx = jsub (vx v) (vx w), vy = jsub (vy v) (vy w), vz = jsub (vz v) (vz w)\<rparr>"

definition multiplyScalar :: "vec3 \<Rightarrow> jsnum \<Rightarrow> vec3" where
  "multiplyScalar v k = \<lparr>vx = jmul (vx v) k, vy = jmul (vy v) k, vz = jmul (vz v) k\<rparr>"

text \<open>\<open>v.lerp(w, alpha)\<close>: each coordinate \<open>c\<close> of \<open>v\<close> becomes \<open>c + (w.c - c) * alpha\<close>.\<close>

definition lerp :: "vec3 \<Rightarrow> vec3 \<Rightarrow> jsnum \<Rightarrow> vec3" where
  "lerp v w alpha =
     \<lparr>vx = jadd (vx v) (jmul (jsub (vx w) (vx v)) alpha),
      vy = jadd (vy v) (jmul (jsub (vy w) (vy v)) alpha),
      vz = jadd (vz v) (jmul (jsub (vz w) (vz v)) alpha)\<rparr>"

text \<open>\<open>r.lerpVectors(v1, v2, alpha)\<close> overwrites \<open>r\<close> with \<open>v1 + (v2 - v1) * alpha\<close>.\<close>

definition lerpVectors :: "vec3 \<Rightarrow> vec3 \<Rightarrow> jsnum \<Rightarrow> vec3" where
  "lerpVectors v1 v2 alpha =
     \<lparr>vx = jadd (vx v1) (jmul (jsub (vx v2) (vx v1)) alpha),
      vy = jadd (vy v1) (jmul (jsub (vy v2) (vy v1)) alpha),
      vz = jadd (vz v1) (jmul (jsub (vz v2) (vz v1)) alpha)\<rparr>"

definition lengthSq :: "vec3 \<Rightarrow> jsnum" where
  "lengthSq v = jadd (jadd (jmul (vx v) (vx v)) (jmul (vy v) (vy v))) (jmul (vz v) (vz v))"

definition length3 :: "vec3 \<Rightarrow> jsnum" where
  "length3 v = Math_sqrt (lengthSq v)"

text \<open>
  \<open>normalize\<close> is \<open>divideScalar(length() || 1)\<close>, and \<open>divideScalar(s)\<close> is
  \<open>multiplyScalar(1 / s)\<close>: a zero (or \<open>NaN\<close>) length is replaced by 1.
\<close>

definition falsy :: "jsnum \<Rightarrow> bool" where
  "falsy a = (a = Fin 0 \<or> a = NaN)"

definition normalize3 :: "vec3 \<Rightarrow> vec3" where
  "normalize3 v =
     (let l = length3 v; s = (if falsy l then Fin 1 else l)
      in multiplyScalar v (jdiv (Fin 1) s))"

definition crossVectors :: "vec3 \<Rightarrow> vec3 \<Rightarrow> vec3" where
  "crossVectors a b =
     \<lparr>vx = jsub (jmul (vy a) (vz b)) (jmul (vz a) (vy b)),
      vy = jsub (jmul (vz a) (vx b)) (jmul (vx a) (vz b)),
      vz = jsub (jmul (vx a) (vy b)) (jmul (vy a) (vx b))\<rparr>"

definition distanceTo :: "vec3 \<Rightarrow> vec3 \<Rightarrow> jsnum" where
  "distanceTo v w = length3 (sub v w)"

text \<open>\<open>MathUtils.clamp(value, min, max)\<close> is \<open>Math.max(min, Math.min(max, value))\<close>.\<close>

definition clamp :: "jsnum \<Rightarrow> jsnum \<Rightarrow> jsnum \<Rightarrow> jsnum" where
  "clamp v lo hi = Math_max lo (Math_min hi v)"

text \<open>
  \<open>Spherical.setFromVector3\<close>: the radius is the length; a zero radius gives the angles 0,
  otherwise \<open>theta = atan2(x, z)\<close> and \<open>phi = acos(clamp(y / radius, -1, 1))\<close>.
\<close>

definition setFromVector3 :: "vec3 \<Rightarrow> spherical" where
  "setFromVector3 v =
     (let r = length3 v
      in if r = Fin 0 then \<lparr>radius = r, phi = Fin 0, theta = Fin 0\<rparr>
         else \<lparr>radius = r,
               phi = Math_acos (clamp (jdiv (vy v) r) (Fin (- 1)) (Fin 1)),
               theta = Math_atan2 (vx v) (vz v)\<rparr>)"

text \<open>\<open>Vector3.setFromSpherical\<close>: the point at the given radius and angles.\<close>

definition setFromSpherical :: "spherical \<Rightarrow> vec3" where
  "setFromSpherical s =
     (let sinPhiRadius = jmul (Math_sin (phi s)) (radius s)
      in \<lparr>vx = jmul sinPhiRadius (Math_sin (theta s)),
          vy = jmul (Math_cos (phi s)) (radius s),
          vz = jmul sinPhiRadius (Math_cos (theta s))\<rparr>)"

text \<open>\<open>Vector3.dot\<close>.\<close>

definition dot :: "vec3 \<Rightarrow> vec3 \<Rightarrow> jsnum" where
  "dot v w = jadd (jadd (jmul (vx v) (vx w)) (jmul (vy v) (vy w))) (jmul (vz v) (vz w))"

text \<open>
  A quaternion, with the methods \<open>update\<close> calls. \<open>normalize\<close> divides by the length,
  and turns a quaternion of length 0 into the identity \<open>(0, 0, 0, 1)\<close>.
\<close>

record quat =
  qx :: jsnum
  qy :: jsnum
  qz :: jsnum
  qw :: jsnum

definition quat_normalize :: "quat \<Rightarrow> quat" where
  "quat_normalize q =
     (let l = Math_sqrt (jadd (jadd (jadd (jmul (qx q) (qx q)) (jmul (qy q) (qy q)))
                                    (jmul (qz q) (qz q))) (jmul (qw q) (qw q)))
      in if l = Fin 0 then \<lparr>qx = Fin 0, qy = Fin 0, qz = Fin 0, qw = Fin 1\<rparr>
         else let k = jdiv (Fin 1) l
              in \<lparr>qx = jmul (qx q) k, qy = jmul (qy q) k, qz = jmul (qz q) k,
                  qw = jmul (qw q) k\<rparr>)"

text \<open>
  \<open>Quaternion.setFromUnitVectors(vFrom, vTo)\<close>: the rotation that takes the unit vector
  \<open>vFrom\<close> to the unit vector \<open>vTo\<close>; the first branch serves vectors that point in
  opposite directions.
\<close>

definition setFromUnitVectors :: "vec3 \<Rightarrow> vec3 \<Rightarrow> quat" where
  "setFromUnitVectors vFrom vTo =
     (let r = jadd (dot vFrom vTo) (Fin 1)
      in quat_normalize
           (if jlt r (Fin 0.000001) then
              (if jlt (Math_abs (vz vFrom)) (Math_abs (vx vFrom))
               then \<lparr>qx = jneg (vy vFrom), qy = vx vFrom, qz = Fin 0, qw = Fin 0\<rparr>
               else \<lparr>qx = Fin 0, qy = jneg (vz vFrom), qz = vy vFrom, qw = Fin 0\<rparr>)
            else
              \<lparr>qx = jsub (jmul (vy vFrom) (vz vTo)) (jmul (vz vFrom) (vy vTo)),
               qy = jsub (jmul (vz vFrom) (vx vTo)) (jmul (vx vFrom) (vz vTo)),
               qz = jsub (jmul (vx vFrom) (vy vTo)) (jmul (vy vFrom) (vx vTo)),
               qw = r\<rparr>))"

text \<open>\<open>Quaternion.invert\<close> is the conjugate.\<close>

definition invert :: "quat \<Rightarrow> quat" where
  "invert q =
     \<lparr>qx = jmul (qx q) (Fin (- 1)), qy = jmul (qy q) (Fin (- 1)),
      qz = jmul (qz q) (Fin (- 1)), qw = qw q\<rparr>"

text \<open>
  \<open>Vector3.applyQuaternion\<close>: the product of the quaternion and the vector, times the
  inverse quaternion. Also the identity rotation multiplies every coordinate by its
  zeros, so it turns a vector with an infinite coordinate into \<open>NaN\<close>s.
\<close>

definition applyQuaternion :: "vec3 \<Rightarrow> quat \<Rightarrow> vec3" where
  "applyQuaternion v q =
     (let x = vx v; y = vy v; z = vz v;
          ix = jsub (jadd (jmul (qw q) x) (jmul (qy q) z)) (jmul (qz q) y);
          iy = jsub (jadd (jmul (qw q) y) (jmul (qz q) x)) (jmul (qx q) z);
          iz = jsub (jadd (jmul (qw q) z) (jmul (qx q) y)) (jmul (qy q) x);
          iw = jsub (jsub (jmul (jneg (qx q)) x) (jmul (qy q) y)) (jmul (qz q) z)
      in \<lparr>vx = jsub (jadd (jadd (jmul ix (qw q)) (jmul iw (jneg (qx q))))
                          (jmul iy (jneg (qz q))))
                    (jmul iz (jneg (qy q))),
          vy = jsub (jadd (jadd (jmul iy (qw q)) (jmul iw (jneg (qy q))))
                          (jmul iz (jneg (qx q))))
                    (jmul ix (jneg (qz q))),
          vz = jsub (jadd (jadd (jmul iz (qw q)) (jmul iw (jneg (qz q))))
                          (jmul ix (jneg (qy q))))
                    (jmul iy (jneg (qx q)))\<rparr>)"

text \<open>
  A child at \<open>p\<close> inside a group at the origin whose Euler rotation is \<open>(0, a, 0)\<close> has
  the world position \<open>R\<^sub>y(a) p\<close>, with the rotation matrix of \<open>Matrix4.makeRotationY\<close>:
  rows \<open>(cos a, 0, sin a)\<close>, \<open>(0, 1, 0)\<close>, \<open>(- sin a, 0, cos a)\<close>.
\<close>

definition rotateY :: "jsnum \<Rightarrow> vec3 \<Rightarrow> vec3" where
  "rotateY a p =
     \<lparr>vx = jadd (jmul (Math_cos a) (vx p)) (jmul (Math_sin a) (vz p)),
      vy = vy p,
      vz = jadd (jmul (jneg (Math_sin a)) (vx p)) (jmul (Math_cos a) (vz p))\<rparr>"

section \<open>The camera controller (orbit-controls.js)\<close>

datatype state = NONE | ROTATE | DOLLY | PAN

text \<open>
  The camera object is shared by reference between the controller and the main module,
  so the model passes it beside the controller. Its up vector is never assigned by the
  program and keeps the runtime's default \<open>(0, 1, 0)\<close>, the constant \<open>camera_up\<close>; its
  orientation (written by \<open>lookAt\<close>) is read by no code of the program and is left out.
\<close>

record camera =
  position :: vec3
  fov :: jsnum

definition camera_up :: vec3 where
  "camera_up = Vector3 (Fin 0) (Fin 1) (Fin 0)"

text \<open>
  The fields of \<open>OrbitControls\<close>. \<open>clientHeight\<close> is \<open>domElement.clientHeight\<close>;
  \<open>documentListeners\<close> tells whether \<open>onMouseMove\<close> and \<open>onMouseUp\<close> are registered on
  the document. The fields \<open>minZoom\<close>, \<open>maxZoom\<close>, \<open>lastPosition\<close> and
  \<open>lastQuaternion\<close> are never read and are left out.
\<close>

record orbit_controls =
  clientHeight :: nat
  documentListeners :: bool
  enabled :: bool
  target :: vec3
  enableDamping :: bool
  dampingFactor :: jsnum
  minDistance :: jsnum
  maxDistance :: jsnum
  autoRotate :: bool
  autoRotateSpeed :: jsnum
  currentState :: state
  spherical :: spherical
  sphericalDelta :: spherical
  panOffset :: vec3
  zoomChanged :: bool
  rotateStart :: vec2
  rotateEnd :: vec2
  rotateDelta :: vec2
  panStart :: vec2
  panEnd :: vec2
  panDelta :: vec2
  dollyStart :: vec2
  dollyEnd :: vec2
  dollyDelta :: vec2
  scale :: jsnum

type_synonym view = "camera \<times> orbit_controls"

record mouse_event =
  button :: int
  clientX :: real
  clientY :: real

text \<open>A touch point is its pair \<open>(pageX, pageY)\<close>.\<close>

type_synonym touch = "real \<times> real"

definition getZoomScale :: jsnum where
  "getZoomScale = Math_pow (Fin 0.95) 1"

definition rotateLeft :: "jsnum \<Rightarrow> orbit_controls \<Rightarrow> orbit_controls" where
  "rotateLeft angle c =
     c\<lparr>sphericalDelta := (sphericalDelta c)\<lparr>theta := jsub (theta (sphericalDelta c)) angle\<rparr>\<rparr>"

definition rotateUp :: "jsnum \<Rightarrow> orbit_controls \<Rightarrow> orbit_controls" where
  "rotateUp angle c =
     c\<lparr>sphericalDelta := (sphericalDelta c)\<lparr>phi := jsub (phi (sphericalDelta c)) angle\<rparr>\<rparr>"

definition dollyIn :: "jsnum \<Rightarrow> orbit_controls \<Rightarrow> orbit_controls" where
  "dollyIn dollyScale c = c\<lparr>scale := jdiv (scale c) dollyScale, zoomChanged := True\<rparr>"

definition dollyOut :: "jsnum \<Rightarrow> orbit_controls \<Rightarrow> orbit_controls" where
  "dollyOut dollyScale c = c\<lparr>scale := jmul (scale c) dollyScale, zoomChanged := True\<rparr>"

definition getAutoRotationAngle :: "orbit_controls \<Rightarrow> jsnum" where
  "getAutoRotationAngle c =
     jmul (jdiv (jdiv (jmul (Fin 2) Math_PI) (Fin 60)) (Fin 60)) (autoRotateSpeed c)"

definition pan :: "jsnum \<Rightarrow> jsnum \<Rightarrow> camera \<Rightarrow> orbit_controls \<Rightarrow> orbit_controls" where
  "pan deltaX deltaY cam c =
     (let targetDistance = distanceTo (position cam) (target c);
          panDistance =
            jmul (jmul (Fin 2) targetDistance)
              (Math_tan (jdiv (jmul (jdiv (fov cam) (Fin 2)) Math_PI) (Fin 180)));
          h = Fin (real (clientHeight c));
          offset1 = normalize3 (sub (position cam) (target c));
          offset2 = crossVectors camera_up offset1;
          offset3 = multiplyScalar offset2 (jdiv (jmul (jneg deltaX) panDistance) h);
          panOffset1 = add (panOffset c) offset3;
          offset4 = normalize3 camera_up;
          offset5 = multiplyScalar offset4 (jdiv (jmul deltaY panDistance) h)
      in c\<lparr>panOffset := add panOffset1 offset5\<rparr>)"

text \<open>\<open>update\<close>.\<close>

definition update :: "view \<Rightarrow> view" where
  "update v =
     (let cam = fst v; c = snd v;
          quat = setFromUnitVectors camera_up (Vector3 (Fin 0) (Fin 1) (Fin 0));
          quatInverse = invert quat;
          offset = applyQuaternion (sub (position cam) (target c)) quat;
          c1 = c\<lparr>spherical := setFromVector3 offset\<rparr>;
          c2 = (if autoRotate c1 \<and> currentState c1 = NONE
                then rotateLeft (getAutoRotationAngle c1) c1 else c1);
          theta1 = jadd (theta (spherical c2)) (theta (sphericalDelta c2));
          phi1 = jadd (phi (spherical c2)) (phi (sphericalDelta c2));
          phi2 = Math_max (Fin 0.000001) (Math_min (jsub Math_PI (Fin 0.000001)) phi1);
          radius1 = jmul (radius (spherical c2)) (scale c2);
          radius2 = Math_max (minDistance c2) (Math_min (maxDistance c2) radius1);
          sph = \<lparr>radius = radius2, phi = phi2, theta = theta1\<rparr>;
          target1 = add (target c2) (panOffset c2);
          offset1 = applyQuaternion (setFromSpherical sph) quatInverse;
          cam1 = cam\<lparr>position := add target1 offset1\<rparr>;
          c3 = c2\<lparr>spherical := sph, target := target1\<rparr>;
          k = jsub (Fin 1) (dampingFactor c3);
          c4 = (if enableDamping c3
                then c3\<lparr>sphericalDelta :=
                          (sphericalDelta c3)\<lparr>theta := jmul (theta (sphericalDelta c3)) k,
                                               phi := jmul (phi (sphericalDelta c3)) k\<rparr>,
                        panOffset := multiplyScalar (panOffset c3) k\<rparr>
                else c3\<lparr>sphericalDelta := \<lparr>radius = Fin 0, phi = Fin 0, theta = Fin 0\<rparr>,
                        panOffset := Vector3 (Fin 0) (Fin 0) (Fin 0)\<rparr>)
      in (cam1, c4\<lparr>scale := Fin 1\<rparr>))"

text \<open>The quaternion of \<open>update\<close>, for the camera's up vector.\<close>

definition up_rotation :: quat where
  "up_rotation = setFromUnitVectors camera_up (Vector3 (Fin 0) (Fin 1) (Fin 0))"

definition onMouseDown :: "mouse_event \<Rightarrow> orbit_controls \<Rightarrow> orbit_controls" where
  "onMouseDown ev c =
     (if \<not> enabled c then c
      else
        let p = Vector2 (Fin (clientX ev)) (Fin (clientY ev));
            c1 = (if button ev = 0 then c\<lparr>currentState := ROTATE, rotateStart := p\<rparr>
                  else if button ev = 1 then c\<lparr>currentState := DOLLY, dollyStart := p\<rparr>
                  else if button ev = 2 then c\<lparr>currentState := PAN, panStart := p\<rparr>
                  else c)
        in if currentState c1 \<noteq> NONE then c1\<lparr>documentListeners := True\<rparr> else c1)"

text \<open>The \<open>switch\<close> of \<open>onMouseMove\<close>, before the handler's closing \<open>update\<close>.\<close>

definition onMouseMove_switch :: "mouse_event \<Rightarrow> camera \<Rightarrow> orbit_controls \<Rightarrow> orbit_controls" where
  "onMouseMove_switch ev cam c =
     (let p = Vector2 (Fin (clientX ev)) (Fin (clientY ev));
          h = Fin (real (clientHeight c))
      in case currentState c of
           ROTATE \<Rightarrow>
             (let d = multiplyScalar2 (subVectors2 p (rotateStart c)) (Fin 0.01);
                  c1 = c\<lparr>rotateEnd := p, rotateDelta := d\<rparr>;
                  c2 = rotateLeft (jdiv (jmul (jmul (Fin 2) Math_PI) (ux d)) h) c1;
                  c3 = rotateUp (jdiv (jmul (jmul (Fin 2) Math_PI) (uy d)) h) c2
              in c3\<lparr>rotateStart := p\<rparr>)
         | DOLLY \<Rightarrow>
             (let d = subVectors2 p (dollyStart c);
                  c1 = c\<lparr>dollyEnd := p, dollyDelta := d\<rparr>;
                  c2 = (if jlt (Fin 0) (uy d) then dollyIn getZoomScale c1
                        else if jlt (uy d) (Fin 0) then dollyOut getZoomScale c1
                        else c1)
              in c2\<lparr>dollyStart := p\<rparr>)
         | PAN \<Rightarrow>
             (let d = multiplyScalar2 (subVectors2 p (panStart c)) (Fin 0.01);
                  c1 = c\<lparr>panEnd := p, panDelta := d\<rparr>;
                  c2 = pan (ux d) (uy d) cam c1
              in c2\<lparr>panStart := p\<rparr>)
         | NONE \<Rightarrow> c)"

definition onMouseMove :: "mouse_event \<Rightarrow> view \<Rightarrow> view" where
  "onMouseMove ev v =
     (if \<not> enabled (snd v) then v
      else update (fst v, onMouseMove_switch ev (fst v) (snd v)))"

definition onMouseUp :: "orbit_controls \<Rightarrow> orbit_controls" where
  "onMouseUp c =
     (if \<not> enabled c then c else c\<lparr>documentListeners := False, currentState := NONE\<rparr>)"

definition onMouseWheel :: "real \<Rightarrow> view \<Rightarrow> view" where
  "onMouseWheel deltaY v =
     (if \<not> enabled (snd v) then v
      else update (fst v,
             if deltaY < 0 then dollyOut getZoomScale (snd v)
             else if 0 < deltaY then dollyIn getZoomScale (snd v)
             else snd v))"

text \<open>The distance of two touch points, \<open>Math.sqrt(dx * dx + dy * dy)\<close>.\<close>

definition touch_distance :: "touch \<Rightarrow> touch \<Rightarrow> jsnum" where
  "touch_distance t0 t1 =
     (let dx = Fin (fst t0 - fst t1); dy = Fin (snd t0 - snd t1)
      in Math_sqrt (jadd (jmul dx dx) (jmul dy dy)))"

fun onTouchStart_switch :: "touch list \<Rightarrow> orbit_controls \<Rightarrow> orbit_controls" where
  "onTouchStart_switch [t0] c =
     c\<lparr>currentState := ROTATE, rotateStart := Vector2 (Fin (fst t0)) (Fin (snd t0))\<rparr>"
| "onTouchStart_switch [t0, t1] c =
     c\<lparr>currentState := DOLLY, dollyStart := Vector2 (Fin 0) (touch_distance t0 t1)\<rparr>"
| "onTouchStart_switch ts c = c"

definition onTouchStart :: "touch list \<Rightarrow> orbit_controls \<Rightarrow> orbit_controls" where
  "onTouchStart ts c = (if \<not> enabled c then c else onTouchStart_switch ts c)"

fun onTouchMove_switch :: "touch list \<Rightarrow> orbit_controls \<Rightarrow> orbit_controls" where
  "onTouchMove_switch [t0] c =
     (let p = Vector2 (Fin (fst t0)) (Fin (snd t0));
          h = Fin (real (clientHeight c));
          d = multiplyScalar2 (subVectors2 p (rotateStart c)) (Fin 0.01);
          c1 = c\<lparr>rotateEnd := p, rotateDelta := d\<rparr>;
          c2 = rotateLeft (jdiv (jmul (jmul (Fin 2) Math_PI) (ux d)) h) c1;
          c3 = rotateUp (jdiv (jmul (jmul (Fin 2) Math_PI) (uy d)) h) c2
      in c3\<lparr>rotateStart := p\<rparr>)"
| "onTouchMove_switch [t0, t1] c =
     (let e = Vector2 (Fin 0) (touch_distance t0 t1);
          d = Vector2 (Fin 0) (Math_pow (jdiv (uy e) (uy (dollyStart c))) 0.1);
          c1 = c\<lparr>dollyEnd := e, dollyDelta := d\<rparr>;
          c2 = dollyIn (uy d) c1
      in c2\<lparr>dollyStart := e\<rparr>)"
| "onTouchMove_switch ts c = c"

definition onTouchMove :: "touch list \<Rightarrow> orbit_controls \<Rightarrow> orbit_controls" where
  "onTouchMove ts c = (if \<not> enabled c then c else onTouchMove_switch ts c)"

definition onTouchEnd :: "orbit_controls \<Rightarrow> orbit_controls" where
  "onTouchEnd c = (if \<not> enabled c then c else c\<lparr>currentState := NONE\<rparr>)"

text \<open>
  The events the controller listens to. \<open>mousemove\<close> and \<open>mouseup\<close> reach it only while
  its document listeners are registered; \<open>Frame\<close> is the per-frame \<open>update\<close> call of the
  main loop.
\<close>

datatype input =
    MouseDown mouse_event
  | MouseMove mouse_event
  | MouseUp
  | Wheel real
  | TouchStart "touch list"
  | TouchMove "touch list"
  | TouchEnd
  | Frame

fun dispatch :: "input \<Rightarrow> view \<Rightarrow> view" where
  "dispatch (MouseDown ev) (cam, c) = (cam, onMouseDown ev c)"
| "dispatch (MouseMove ev) (cam, c) =
     (if documentListeners c then onMouseMove ev (cam, c) else (cam, c))"
| "dispatch MouseUp (cam, c) = (if documentListeners c then (cam, onMouseUp c) else (cam, c))"
| "dispatch (Wheel deltaY) (cam, c) = onMouseWheel deltaY (cam, c)"
| "dispatch (TouchStart ts) (cam, c) = (cam, onTouchStart ts c)"
| "dispatch (TouchMove ts) (cam, c) = (cam, onTouchMove ts c)"
| "dispatch TouchEnd (cam, c) = (cam, onTouchEnd c)"
| "dispatch Frame (cam, c) = update (cam, c)"



section \<open>The main module: bodies, motion, focus\<close>

text \<open>
  An entry of the \<open>planetData\<close> table. Its numbers are literals of the source, so they
  are finite; \<open>color\<close> and \<open>info\<close> play no part in the motion and are left out.
\<close>

record planet_data =
  name :: string
  data_radius :: real
  distance :: real
  orbitalSpeed :: real
  rotationSpeed :: real

definition planetData :: "(string \<times> planet_data) list" where
  "planetData =
    [(''mercury'', \<lparr>name = ''Mercury'', data_radius = 1.2, distance = 12,
                     orbitalSpeed = 0.02, rotationSpeed = 0.005\<rparr>),
     (''venus'', \<lparr>name = ''Venus'', data_radius = 1.8, distance = 18,
                   orbitalSpeed = 0.015, rotationSpeed = 0.002\<rparr>),
     (''earth'', \<lparr>name = ''Earth'', data_radius = 2.0, distance = 24,
                   orbitalSpeed = 0.01, rotationSpeed = 0.02\<rparr>),
     (''mars'', \<lparr>name = ''Mars'', data_radius = 1.5, distance = 30,
                  orbitalSpeed = 0.008, rotationSpeed = 0.018\<rparr>),
     (''jupiter'', \<lparr>name = ''Jupiter'', data_radius = 5.5, distance = 40,
                     orbitalSpeed = 0.005, rotationSpeed = 0.04\<rparr>),
     (''saturn'', \<lparr>name = ''Saturn'', data_radius = 4.8, distance = 52,
                    orbitalSpeed = 0.003, rotationSpeed = 0.035\<rparr>),
     (''uranus'', \<lparr>name = ''Uranus'', data_radius = 3.2, distance = 64,
                    orbitalSpeed = 0.002, rotationSpeed = 0.025\<rparr>),
     (''neptune'', \<lparr>name = ''Neptune'', data_radius = 3.0, distance = 76,
                     orbitalSpeed = 0.001, rotationSpeed = 0.022\<rparr>)]"

text \<open>
  An entry of \<open>this.planets\<close>: the mesh (its position inside the orbit group and its
  rotation about the vertical axis), the orbit group (its rotation about the vertical
  axis; the group sits at the origin of the scene), the data, the angle and the
  individual speed multiplier.
\<close>

record planet =
  mesh_position :: vec3
  mesh_rotation_y :: jsnum
  orbitGroup_rotation_y :: jsnum
  data :: planet_data
  angle :: jsnum
  individualSpeed :: jsnum

text \<open>An entry of \<open>this.moons\<close>; the moon's mesh is a child of its planet's mesh.\<close>

record moon =
  moon_position :: vec3
  moon_rotation_y :: jsnum
  moon_angle :: jsnum
  moon_distance :: jsnum
  moon_speed :: jsnum

text \<open>
  \<open>this.controls\<close> is the orbit controller, or the mock object of \<open>setupBasicControls\<close>
  (a target and an \<open>update\<close> that does nothing).
\<close>

datatype controls = Orbit orbit_controls | Basic vec3

text \<open>
  The state of \<open>SolarSystem\<close>. \<open>sun\<close> and \<open>starField\<close> hold the rotation about the vertical
  axis of the object, \<open>None\<close> while the field is \<open>null\<close>; \<open>moons\<close> is \<open>None\<close> while
  \<open>this.moons\<close> is undefined. The dictionaries keep their insertion order.
\<close>

record solar_system =
  camera :: camera
  controls :: controls
  isPaused :: bool
  globalSpeedMultiplier :: jsnum
  sun :: "jsnum option"
  planets :: "(string \<times> planet) list"
  moons :: "(string \<times> moon) list option"
  starField :: "jsnum option"

definition controls_target :: "controls \<Rightarrow> vec3" where
  "controls_target k = (case k of Orbit c \<Rightarrow> target c | Basic t \<Rightarrow> t)"

definition controls_set_target :: "vec3 \<Rightarrow> controls \<Rightarrow> controls" where
  "controls_set_target t k = (case k of Orbit c \<Rightarrow> Orbit (c\<lparr>target := t\<rparr>) | Basic u \<Rightarrow> Basic t)"

text \<open>\<open>this.controls.update()\<close>, on the camera both objects share.\<close>

definition update_controls :: "solar_system \<Rightarrow> solar_system" where
  "update_controls s =
     (case controls s of
        Orbit c \<Rightarrow> (let v = update (camera s, c) in s\<lparr>camera := fst v, controls := Orbit (snd v)\<rparr>)
      | Basic t \<Rightarrow> s)"

definition createSun :: "solar_system \<Rightarrow> solar_system" where
  "createSun s = s\<lparr>sun := Some (Fin 0)\<rparr>"

definition addEarthMoon :: "real \<Rightarrow> solar_system \<Rightarrow> solar_system" where
  "addEarthMoon planetRadius s =
     (let d = jmul (Fin planetRadius) (Fin 3);
          m = \<lparr>moon_position = Vector3 d (Fin 0) (Fin 0), moon_rotation_y = Fin 0,
               moon_angle = Fin 0, moon_distance = d, moon_speed = Fin 0.05\<rparr>;
          ms = (case moons s of None \<Rightarrow> [] | Some l \<Rightarrow> l)
      in s\<lparr>moons := Some (AList.update ''earth'' m ms)\<rparr>)"

text \<open>
  \<open>createPlanet\<close>; \<open>rnd\<close> is the value of \<open>Math.random()\<close>. The rings of Saturn and the
  orbit path are drawn only.
\<close>

definition createPlanet :: "string \<Rightarrow> planet_data \<Rightarrow> real \<Rightarrow> solar_system \<Rightarrow> solar_system" where
  "createPlanet key d rnd s =
     (let s1 = (if key = ''saturn'' then s
                else if key = ''earth'' then addEarthMoon (data_radius d) s
                else s);
          p = \<lparr>mesh_position = Vector3 (Fin (distance d)) (Fin 0) (Fin 0),
               mesh_rotation_y = Fin 0,
               orbitGroup_rotation_y = Fin 0,
               data = d,
               angle = jmul (jmul (Fin rnd) Math_PI) (Fin 2),
               individualSpeed = Fin 1.0\<rparr>
      in s1\<lparr>planets := AList.update key p (planets s1)\<rparr>)"

text \<open>\<open>planet.mesh.getWorldPosition\<close>: the mesh position turned by the orbit group.\<close>

definition getWorldPosition :: "planet \<Rightarrow> vec3" where
  "getWorldPosition p = rotateY (orbitGroup_rotation_y p) (mesh_position p)"

text \<open>The body of the \<open>forEach\<close> over the planets in \<open>updatePlanets\<close>.\<close>

definition updatePlanet :: "jsnum \<Rightarrow> planet \<Rightarrow> planet" where
  "updatePlanet g p =
     (let speedMultiplier = jmul g (individualSpeed p);
          a = jadd (angle p) (jmul (Fin (orbitalSpeed (data p))) speedMultiplier)
      in p\<lparr>angle := a,
           orbitGroup_rotation_y := a,
           mesh_rotation_y :=
             jadd (mesh_rotation_y p) (jmul (Fin (rotationSpeed (data p))) speedMultiplier)\<rparr>)"

text \<open>The body of the \<open>forEach\<close> over the moons.\<close>

definition updateMoon :: "jsnum \<Rightarrow> moon \<Rightarrow> moon" where
  "updateMoon g m =
     (let a = jadd (moon_angle m) (jmul (moon_speed m) g)
      in m\<lparr>moon_angle := a,
           moon_position :=
             (moon_position m)\<lparr>vx := jmul (Math_cos a) (moon_distance m),
                               vz := jmul (Math_sin a) (moon_distance m)\<rparr>,
           moon_rotation_y := jadd (moon_rotation_y m) (jmul (Fin 0.02) g)\<rparr>)"

text \<open>\<open>updatePlanets(deltaTime)\<close>; the source never reads \<open>deltaTime\<close>.\<close>

definition updatePlanets :: "solar_system \<Rightarrow> solar_system" where
  "updatePlanets s =
     (let g = globalSpeedMultiplier s
      in s\<lparr>sun := map_option (\<lambda>r. jadd r (jmul (Fin 0.005) g)) (sun s),
           planets := map (\<lambda>(k, p). (k, updatePlanet g p)) (planets s),
           moons := map_option (map (\<lambda>(k, m). (k, updateMoon g m))) (moons s)\<rparr>)"

definition updateStarField :: "solar_system \<Rightarrow> solar_system" where
  "updateStarField s = s\<lparr>starField := map_option (\<lambda>r. jadd r (Fin 0.0001)) (starField s)\<rparr>"

definition togglePause :: "solar_system \<Rightarrow> solar_system" where
  "togglePause s = s\<lparr>isPaused := \<not> isPaused s\<rparr>"

text \<open>One call of \<open>animate\<close>: the per-frame tick (the rendering itself changes no state).\<close>

definition animate :: "solar_system \<Rightarrow> solar_system" where
  "animate s =
     update_controls (if \<not> isPaused s then updateStarField (updatePlanets s) else s)"

text \<open>
  The two \<open>input\<close> listeners of the speed sliders; \<open>v\<close> is the value of
  \<open>parseFloat(e.target.value)\<close>. Writing to a planet that does not exist throws.
\<close>

definition onGlobalSpeedInput :: "jsnum \<Rightarrow> solar_system \<Rightarrow> solar_system" where
  "onGlobalSpeedInput v s = s\<lparr>globalSpeedMultiplier := v\<rparr>"

definition onPlanetSpeedInput :: "string \<Rightarrow> jsnum \<Rightarrow> solar_system \<Rightarrow> solar_system option" where
  "onPlanetSpeedInput key v s =
     (case map_of (planets s) key of
        None \<Rightarrow> None
      | Some p \<Rightarrow> Some (s\<lparr>planets := AList.update key (p\<lparr>individualSpeed := v\<rparr>) (planets s)\<rparr>))"

text \<open>
  The slider elements the listeners read, \<open>input\<close> elements of the type \<open>range\<close> with the
  attributes \<open>min\<close>, \<open>max\<close> and \<open>step\<close>. Such an element never holds the text it is
  given as it is: for a text that is no number the browser takes the default value, the
  middle of the range; it brings a number below \<open>min\<close> to \<open>min\<close> and a number above
  \<open>max\<close> to \<open>max\<close>; and it rounds to the nearest of the values \<open>min + k * step\<close> that
  do not exceed \<open>max\<close>, upwards when two are as near.
\<close>

record range_input =
  range_min :: real
  range_max :: real
  range_step :: real

definition default_value :: "range_input \<Rightarrow> real" where
  "default_value r =
     (if range_max r < range_min r then range_min r
      else range_min r + (range_max r - range_min r) / 2)"

definition step_round :: "range_input \<Rightarrow> real \<Rightarrow> real" where
  "step_round r x =
     (let k = \<lfloor>(x - range_min r) / range_step r + 1 / 2\<rfloor>;
          y = range_min r + real_of_int k * range_step r
      in if range_min r \<le> range_max r \<and> range_max r < y then y - range_step r else y)"

text \<open>
  \<open>e.target.value\<close>, after the element was given \<open>raw\<close> by the user or by a script:
  \<open>Some x\<close> for the number \<open>x\<close>, \<open>None\<close> for a text that is no number.
\<close>

definition value_of :: "range_input \<Rightarrow> real option \<Rightarrow> real" where
  "value_of r raw =
     (let x = (case raw of None \<Rightarrow> default_value r | Some x \<Rightarrow> x);
          y = (if x < range_min r then range_min r
               else if range_min r \<le> range_max r \<and> range_max r < x then range_max r
               else x)
      in step_round r y)"

text \<open>
  The slider \<open>setupUI\<close> generates for each planet:
  \<open><input type="range" min="0" max="3" step="0.1" value="1">\<close>.
\<close>

definition planet_slider :: range_input where
  "planet_slider = \<lparr>range_min = 0, range_max = 3, range_step = 0.1\<rparr>"

text \<open>Modelled from the spec: the markup of the global speed slider, the element
  \<open>global-speed\<close> of the page, which is not among the sources. The specification gives
  the range \<open>[0, 5]\<close> of the global speed multiplier, as the README does (0x to 5x), and
  no step: the step is the parameter \<open>st\<close>.
\<close>

definition global_slider :: "real \<Rightarrow> range_input" where
  "global_slider st = \<lparr>range_min = 0, range_max = 5, range_step = st\<rparr>"

text \<open>
  The two listeners, run on an \<open>input\<close> event of their slider after the slider was given
  \<open>raw\<close>: \<open>parseFloat\<close> reads back the number the element holds.
\<close>

definition globalSpeedSlider_input :: "real \<Rightarrow> real option \<Rightarrow> solar_system \<Rightarrow> solar_system" where
  "globalSpeedSlider_input st raw s =
     onGlobalSpeedInput (Fin (value_of (global_slider st) raw)) s"

definition planetSpeedSlider_input :: "string \<Rightarrow> real option \<Rightarrow> solar_system \<Rightarrow> solar_system option" where
  "planetSpeedSlider_input key raw s =
     onPlanetSpeedInput key (Fin (value_of planet_slider raw)) s"



text \<open>
  What the closure \<open>animateCamera\<close> of \<open>focusOnObject\<close> captures. Times are the
  millisecond counts of \<open>Date.now()\<close>.
\<close>

record focus =
  startPosition :: vec3
  endPosition :: vec3
  targetPosition :: vec3
  startTime :: int

definition duration :: real where
  "duration = 2000"

definition progress_at :: "focus \<Rightarrow> int \<Rightarrow> jsnum" where
  "progress_at f now = Math_min (jdiv (Fin (real_of_int (now - startTime f))) (Fin duration)) (Fin 1)"

definition eased_at :: "focus \<Rightarrow> int \<Rightarrow> jsnum" where
  "eased_at f now = jsub (Fin 1) (Math_pow (jsub (Fin 1) (progress_at f now)) 3)"

text \<open>The two interpolations of one \<open>animateCamera\<close> call, before its \<open>update\<close>.\<close>

definition animateCamera_lerp :: "focus \<Rightarrow> int \<Rightarrow> solar_system \<Rightarrow> solar_system" where
  "animateCamera_lerp f now s =
     (let eased = eased_at f now
      in s\<lparr>camera := (camera s)\<lparr>position := lerpVectors (startPosition f) (endPosition f) eased\<rparr>,
           controls := controls_set_target
                         (lerp (controls_target (controls s)) (targetPosition f) eased)
                         (controls s)\<rparr>)"

text \<open>
  One call of \<open>animateCamera\<close> at the time \<open>now\<close>: the new state, and whether the call
  asked for another animation frame.
\<close>

definition animateCamera :: "focus \<Rightarrow> int \<Rightarrow> solar_system \<Rightarrow> solar_system \<times> bool" where
  "animateCamera f now s =
     (update_controls (animateCamera_lerp f now s), jlt (progress_at f now) (Fin 1))"

text \<open>Where \<open>focusOnObject\<close> looks and how far the camera stays, if the name is known.\<close>

definition focus_destination :: "string \<Rightarrow> solar_system \<Rightarrow> (vec3 \<times> jsnum) option" where
  "focus_destination objectName s =
     (if objectName = ''sun'' then Some (Vector3 (Fin 0) (Fin 0) (Fin 0), Fin 15)
      else case map_of (planets s) objectName of
             Some p \<Rightarrow> Some (getWorldPosition p, jmul (Fin (data_radius (data p))) (Fin 8))
           | None \<Rightarrow> None)"

text \<open>
  \<open>focusOnObject\<close>, called at the time \<open>now\<close>; its first \<open>animateCamera\<close> call reads the
  clock again, at \<open>now'\<close>. The result is the new state and the transition, if it asked
  for another frame.
\<close>

definition focusOnObject :: "string \<Rightarrow> int \<Rightarrow> int \<Rightarrow> solar_system \<Rightarrow> solar_system \<times> focus option" where
  "focusOnObject objectName now now' s =
     (case focus_destination objectName s of
        None \<Rightarrow> (s, None)
      | Some (tp, d) \<Rightarrow>
          (let f = \<lparr>startPosition = position (camera s),
                    endPosition = add tp (Vector3 d (jmul d (Fin 0.5)) d),
                    targetPosition = tp,
                    startTime = now\<rparr>;
               r = animateCamera f now' s
           in (fst r, if snd r then Some f else None)))"

text \<open>
  A displayed frame at the time \<open>now\<close>: the frame callbacks run in the order of their
  registration, \<open>animate\<close> first, then every pending \<open>animateCamera\<close>.
\<close>

fun run_transitions :: "focus list \<Rightarrow> int \<Rightarrow> solar_system \<Rightarrow> solar_system \<times> focus list" where
  "run_transitions [] now s = (s, [])"
| "run_transitions (f # fs) now s =
     (let r = animateCamera f now s; q = run_transitions fs now (fst r)
      in (fst q, if snd r then f # snd q else snd q))"

definition frame :: "int \<Rightarrow> solar_system \<times> focus list \<Rightarrow> solar_system \<times> focus list" where
  "frame now w = run_transitions (snd w) now (animate (fst w))"


section \<open>Construction\<close>

text \<open>\<open>setupCamera\<close>: a perspective camera with a field of view of 75 degrees.\<close>

definition setupCamera :: camera where
  "setupCamera = \<lparr>position = Vector3 (Fin 0) (Fin 50) (Fin 120), fov = Fin 75\<rparr>"

text \<open>
  The field initialisers of the \<open>OrbitControls\<close> constructor, for a canvas of height
  \<open>h\<close>; a fresh \<open>Spherical\<close> has the radius 1 and the angles 0.
\<close>

definition OrbitControls_fields :: "nat \<Rightarrow> orbit_controls" where
  "OrbitControls_fields h =
     \<lparr>clientHeight = h,
      documentListeners = False,
      enabled = True,
      target = Vector3 (Fin 0) (Fin 0) (Fin 0),
      enableDamping = False,
      dampingFactor = Fin 0.05,
      minDistance = Fin 0,
      maxDistance = PInf,
      autoRotate = False,
      autoRotateSpeed = Fin 2.0,
      currentState = NONE,
      spherical = \<lparr>radius = Fin 1, phi = Fin 0, theta = Fin 0\<rparr>,
      sphericalDelta = \<lparr>radius = Fin 1, phi = Fin 0, theta = Fin 0\<rparr>,
      panOffset = Vector3 (Fin 0) (Fin 0) (Fin 0),
      zoomChanged = False,
      rotateStart = Vector2 (Fin 0) (Fin 0),
      rotateEnd = Vector2 (Fin 0) (Fin 0),
      rotateDelta = Vector2 (Fin 0) (Fin 0),
      panStart = Vector2 (Fin 0) (Fin 0),
      panEnd = Vector2 (Fin 0) (Fin 0),
      panDelta = Vector2 (Fin 0) (Fin 0),
      dollyStart = Vector2 (Fin 0) (Fin 0),
      dollyEnd = Vector2 (Fin 0) (Fin 0),
      dollyDelta = Vector2 (Fin 0) (Fin 0),
      scale = Fin 1\<rparr>"

text \<open>The constructor ends with a first \<open>update\<close>.\<close>

definition OrbitControls_new :: "camera \<Rightarrow> nat \<Rightarrow> view" where
  "OrbitControls_new cam h = update (cam, OrbitControls_fields h)"

text \<open>\<open>setupControls\<close>, when the controller class is found.\<close>

definition setupControls :: "camera \<Rightarrow> nat \<Rightarrow> view" where
  "setupControls cam h =
     (let v = OrbitControls_new cam h
      in (fst v, (snd v)\<lparr>enableDamping := True, dampingFactor := Fin 0.05,
                        minDistance := Fin 10, maxDistance := Fin 400,
                        autoRotate := False, autoRotateSpeed := Fin 0.5\<rparr>))"

text \<open>
  The state after the constructor of \<open>SolarSystem\<close>, \<open>setupCamera\<close>, \<open>setupControls\<close> and
  \<open>createStarField\<close>, on a canvas of height \<open>h\<close>: no bodies yet.
\<close>

definition SolarSystem_new :: "nat \<Rightarrow> solar_system" where
  "SolarSystem_new h =
     (let v = setupControls setupCamera h
      in \<lparr>camera = fst v, controls = Orbit (snd v), isPaused = False,
          globalSpeedMultiplier = Fin 1.0, sun = None, planets = [], moons = None,
          starField = Some (Fin 0)\<rparr>)"

text \<open>
  \<open>createSolarSystem\<close>: the Sun, then one planet per entry of the table \<open>tbl\<close> (in the
  program, \<open>this.planetData\<close>); \<open>rnds\<close> are the values \<open>Math.random()\<close> returns, one per
  planet.
\<close>

fun createPlanets :: "(string \<times> planet_data) list \<Rightarrow> real list \<Rightarrow> solar_system \<Rightarrow> solar_system" where
  "createPlanets ((key, d) # tbl) (rnd # rnds) s = createPlanets tbl rnds (createPlanet key d rnd s)"
| "createPlanets tbl rnds s = s"

definition createSolarSystem :: "(string \<times> planet_data) list \<Rightarrow> real list \<Rightarrow> solar_system \<Rightarrow> solar_system" where
  "createSolarSystem tbl rnds s = createPlanets tbl rnds (createSun s)"

section \<open>Scenarios\<close>

text \<open>Two numbers are within a tolerance of each other; never so when one is not finite.\<close>

fun near :: "real \<Rightarrow> jsnum \<Rightarrow> jsnum \<Rightarrow> bool" where
  "near eps (Fin a) (Fin b) = (\<bar>a - b\<bar> \<le> eps)"
| "near eps a b = False"

text \<open>
  The Sun and one body taken from the table, the Earth (orbital radius 24, orbital rate
  0.01), created at the angle 0 on a canvas 600 pixels high.
\<close>

definition earth_data :: planet_data where
  "earth_data = \<lparr>name = ''Earth'', data_radius = 2.0, distance = 24,
                  orbitalSpeed = 0.01, rotationSpeed = 0.02\<rparr>"

definition sun_and_earth :: solar_system where
  "sun_and_earth = createSolarSystem [(''earth'', earth_data)] [0] (SolarSystem_new 600)"

text \<open>The same with the global speed multiplier set to 2 by its slider.\<close>

definition sun_and_earth_x2 :: solar_system where
  "sun_and_earth_x2 = onGlobalSpeedInput (Fin 2) sun_and_earth"

text \<open>The application's controller at start, on a canvas 600 pixels high.\<close>

definition start_view :: view where
  "start_view = setupControls setupCamera 600"

text \<open>
  A degenerate pinch: two fingers land on the same point and the next \<open>touchmove\<close>
  reports them on the same point again.
\<close>

definition pinch_start :: orbit_controls where
  "pinch_start = onTouchStart [(5, 5), (5, 5)] (snd start_view)"

definition pinch_move :: orbit_controls where
  "pinch_move = onTouchMove [(5, 5), (5, 5)] pinch_start"


text \<open>
  A drag of the left button down the whole height of a canvas 100 pixels high, from
  \<open>(0, 0)\<close> to \<open>(0, 100)\<close>.
\<close>

definition drag_start :: orbit_controls where
  "drag_start =
     onMouseDown \<lparr>button = 0, clientX = 0, clientY = 0\<rparr> (snd (setupControls setupCamera 100))"

definition drag_move :: orbit_controls where
  "drag_move =
     onMouseMove_switch \<lparr>button = 0, clientX = 0, clientY = 100\<rparr> setupCamera drag_start"

text \<open>
  A focus on the Earth started at the time 0 (its first step at the time 0 as well),
  and the transition it leaves pending.
\<close>

definition earth_focus :: focus where
  "earth_focus =
     \<lparr>startPosition = position (camera sun_and_earth),
      endPosition = add (Vector3 (Fin 24) (Fin 0) (Fin 0)) (Vector3 (Fin 16) (Fin 8) (Fin 16)),
      targetPosition = Vector3 (Fin 24) (Fin 0) (Fin 0),
      startTime = 0\<rparr>"


text \<open>
  The focus on the Earth as the program runs it: \<open>focusOnObject\<close> at the time 0, then
  one displayed frame at the time 2000 with the transition pending.
\<close>

definition focus_started :: "solar_system \<times> focus option" where
  "focus_started = focusOnObject ''earth'' 0 0 sun_and_earth"

definition focus_ended :: "solar_system \<times> focus list" where
  "focus_ended = frame 2000 (fst focus_started, [earth_focus])"

text \<open>
  A controller at rest: no pending rotation, pan or zoom, no automatic rotation, a
  finite damping factor.
\<close>

definition at_rest :: "orbit_controls \<Rightarrow> bool" where
  "at_rest c =
     (panOffset c = Vector3 (Fin 0) (Fin 0) (Fin 0) \<and>
      phi (sphericalDelta c) = Fin 0 \<and> theta (sphericalDelta c) = Fin 0 \<and>
      scale c = Fin 1 \<and> \<not> autoRotate c \<and> is_finite (dampingFactor c))"

text \<open>Vectors with finite coordinates.\<close>

definition fin2 :: "vec2 \<Rightarrow> bool" where
  "fin2 v = (is_finite (ux v) \<and> is_finite (uy v))"








section \<open>Facts about the numbers\<close>

lemma jmul_NaN_right [simp]: "jmul a NaN = NaN"
  by (cases a) simp_all

lemma jadd_NaN_right [simp]: "jadd a NaN = NaN"
  by (cases a) simp_all

lemma jdiv_NaN_right [simp]: "jdiv a NaN = NaN"
  by (cases a) simp_all

lemma Math_min_NaN_right [simp]: "Math_min a NaN = NaN"
  by (cases a) simp_all

lemma Math_max_NaN_right [simp]: "Math_max a NaN = NaN"
  by (cases a) simp_all

section \<open>What one update writes\<close>

lemma up_rotation_eq: "up_rotation = \<lparr>qx = Fin 0, qy = Fin 0, qz = Fin 0, qw = Fin 1\<rparr>"
  by (simp add: up_rotation_def setFromUnitVectors_def camera_up_def Vector3_def dot_def
      quat_normalize_def jsub_def Let_def)

lemma up_rotation_inverse: "invert up_rotation = \<lparr>qx = Fin 0, qy = Fin 0, qz = Fin 0, qw = Fin 1\<rparr>"
  by (simp add: up_rotation_eq invert_def)

lemma applyQuaternion_finite:
  "applyQuaternion \<lparr>vx = Fin a, vy = Fin b, vz = Fin c\<rparr> up_rotation =
     \<lparr>vx = Fin a, vy = Fin b, vz = Fin c\<rparr>"
  "applyQuaternion \<lparr>vx = Fin a, vy = Fin b, vz = Fin c\<rparr> (invert up_rotation) =
     \<lparr>vx = Fin a, vy = Fin b, vz = Fin c\<rparr>"
  by (simp_all add: up_rotation_inverse) (simp_all add: up_rotation_eq applyQuaternion_def jsub_def)

lemma scale_update: "scale (snd (update v)) = Fin 1"
  by (simp add: update_def Let_def)

lemma target_update: "target (snd (update v)) = add (target (snd v)) (panOffset (snd v))"
  by (simp add: update_def Let_def rotateLeft_def)

lemma radius_update:
  "radius (spherical (snd (update v))) =
     Math_max (minDistance (snd v)) (Math_min (maxDistance (snd v))
       (jmul (radius (setFromVector3
                (applyQuaternion (sub (position (fst v)) (target (snd v))) up_rotation)))
             (scale (snd v))))"
  by (simp add: update_def Let_def rotateLeft_def up_rotation_def)

lemma phi_update:
  "phi (spherical (snd (update v))) =
     Math_max (Fin 0.000001) (Math_min (jsub Math_PI (Fin 0.000001))
       (jadd (phi (setFromVector3
                (applyQuaternion (sub (position (fst v)) (target (snd v))) up_rotation)))
             (phi (sphericalDelta (snd v)))))"
  by (simp add: update_def Let_def rotateLeft_def up_rotation_def)

lemma update_keeps:
  "minDistance (snd (update v)) = minDistance (snd v)"
  "maxDistance (snd (update v)) = maxDistance (snd v)"
  "enabled (snd (update v)) = enabled (snd v)"
  "enableDamping (snd (update v)) = enableDamping (snd v)"
  "dampingFactor (snd (update v)) = dampingFactor (snd v)"
  "clientHeight (snd (update v)) = clientHeight (snd v)"
  "currentState (snd (update v)) = currentState (snd v)"
  "dollyStart (snd (update v)) = dollyStart (snd v)"
  "rotateStart (snd (update v)) = rotateStart (snd v)"
  "fov (fst (update v)) = fov (fst v)"
  by (simp_all add: update_def Let_def rotateLeft_def)

lemma update_controls_keeps:
  "planets (update_controls s) = planets s"
  "moons (update_controls s) = moons s"
  "sun (update_controls s) = sun s"
  "starField (update_controls s) = starField s"
  "isPaused (update_controls s) = isPaused s"
  "globalSpeedMultiplier (update_controls s) = globalSpeedMultiplier s"
  by (simp_all add: update_controls_def Let_def split: controls.splits)

section \<open>The scenario states\<close>

lemma earth_in_table: "map_of planetData ''earth'' = Some earth_data"
  by (simp add: planetData_def earth_data_def)

text \<open>
  For every planet of the table, the end position of a focus lies 12 radii from the
  planet, within the distance limits 10 and 400 that \<open>setupControls\<close> sets.
\<close>

lemma table_vantage_within_limits:
  "list_all (\<lambda>(k, d). 10 \<le> 12 * data_radius d \<and> 12 * data_radius d \<le> 400) planetData"
  by (simp add: planetData_def)

lemma sun_and_earth_fields:
  "isPaused sun_and_earth = False"
  "globalSpeedMultiplier sun_and_earth = Fin 1"
  "sun sun_and_earth = Some (Fin 0)"
  "controls sun_and_earth = Orbit (snd start_view)"
  "camera sun_and_earth = fst start_view"
  by (simp_all add: sun_and_earth_def createSolarSystem_def createSun_def createPlanet_def
      addEarthMoon_def SolarSystem_new_def start_view_def Let_def)

lemma sun_and_earth_planets:
  "planets sun_and_earth =
     [(''earth'', \<lparr>mesh_position = Vector3 (Fin 24) (Fin 0) (Fin 0), mesh_rotation_y = Fin 0,
                   orbitGroup_rotation_y = Fin 0, data = earth_data, angle = Fin 0,
                   individualSpeed = Fin 1\<rparr>)]"
  by (simp add: sun_and_earth_def createSolarSystem_def createSun_def createPlanet_def
      addEarthMoon_def SolarSystem_new_def Let_def earth_data_def Math_PI_def)


section \<open>The zoom scale is a one-shot multiplier\<close>

text \<open>
  Claim C8. When an \<open>update\<close> call completes, \<open>scale\<close> is 1, whatever it was before;
  that call has multiplied the recomputed radius by the old \<open>scale\<close> once, before
  clamping it, so the factor acts in one update only.
\<close>

theorem zoom_scale_one_shot:
  "scale (snd (update (cam, c))) = Fin 1 \<and>
   radius (spherical (snd (update (cam, c)))) =
     Math_max (minDistance c) (Math_min (maxDistance c)
       (jmul (radius (setFromVector3
                (applyQuaternion (sub (position cam) (target c))
                   (setFromUnitVectors camera_up (Vector3 (Fin 0) (Fin 1) (Fin 0))))))
             (scale c)))"
  by (simp add: scale_update radius_update up_rotation_def)

section \<open>Pause freezes the orbits, not the camera\<close>

lemma paused_animate: "isPaused s \<Longrightarrow> animate s = update_controls s"
  by (simp add: animate_def)

lemma paused_ticks:
  "isPaused s \<Longrightarrow> (animate ^^ n) s = (update_controls ^^ n) s \<and> isPaused ((animate ^^ n) s)"
proof (induction n)
  case 0
  then show ?case by simp
next
  case (Suc n)
  then have eq: "(animate ^^ n) s = (update_controls ^^ n) s"
    and paused: "isPaused ((animate ^^ n) s)" by blast+
  have step: "animate ((animate ^^ n) s) = update_controls ((animate ^^ n) s)"
    using paused by (rule paused_animate)
  have "(animate ^^ Suc n) s = update_controls ((update_controls ^^ n) s)"
    using step eq by simp
  moreover have "isPaused (animate ((animate ^^ n) s))"
    using step paused by (simp add: update_controls_keeps)
  ultimately show ?case by simp
qed

lemma update_controls_iter_keeps:
  "planets ((update_controls ^^ n) s) = planets s \<and> moons ((update_controls ^^ n) s) = moons s
   \<and> sun ((update_controls ^^ n) s) = sun s"
  by (induction n) (simp_all add: update_controls_keeps)

lemma update_controls_Orbit_iter:
  "controls s = Orbit c \<Longrightarrow>
   camera ((update_controls ^^ n) s) = fst ((update ^^ n) (camera s, c)) \<and>
   controls ((update_controls ^^ n) s) = Orbit (snd ((update ^^ n) (camera s, c)))"
proof (induction n)
  case 0
  then show ?case by simp
next
  case (Suc n)
  then have cam: "camera ((update_controls ^^ n) s) = fst ((update ^^ n) (camera s, c))"
    and ctl: "controls ((update_controls ^^ n) s) = Orbit (snd ((update ^^ n) (camera s, c)))"
    by blast+
  show ?case
    by (simp add: update_controls_def [of "(update_controls ^^ n) s"] cam ctl Let_def)
qed

text \<open>
  Claim C9. While the pause flag is set, \<open>n\<close> ticks of \<open>animate\<close> leave the planets
  (their orbital angles and self-rotations), the moons and the Sun as they were; the
  ticks are exactly \<open>n\<close> calls of the controller's \<open>update\<close>, which for the orbit
  controller are \<open>n\<close> runs of \<open>update\<close> on the camera.
\<close>

theorem pause_freezes_orbits:
  assumes "isPaused s"
  shows "planets ((animate ^^ n) s) = planets s \<and>
         moons ((animate ^^ n) s) = moons s \<and>
         sun ((animate ^^ n) s) = sun s \<and>
         (animate ^^ n) s = (update_controls ^^ n) s \<and>
         (controls s = Orbit c \<longrightarrow>
            camera ((animate ^^ n) s) = fst ((update ^^ n) (camera s, c)) \<and>
            controls ((animate ^^ n) s) = Orbit (snd ((update ^^ n) (camera s, c))))"
  using assms by (simp add: paused_ticks update_controls_iter_keeps update_controls_Orbit_iter)

theorem pause_freezes_orbits_witness:
  "isPaused (togglePause sun_and_earth) \<and>
   controls (togglePause sun_and_earth) = Orbit (snd start_view) \<and>
   planets ((animate ^^ 3) (togglePause sun_and_earth)) = planets (togglePause sun_and_earth) \<and>
   moons ((animate ^^ 3) (togglePause sun_and_earth)) = moons (togglePause sun_and_earth) \<and>
   sun ((animate ^^ 3) (togglePause sun_and_earth)) = sun (togglePause sun_and_earth) \<and>
   (animate ^^ 3) (togglePause sun_and_earth) = (update_controls ^^ 3) (togglePause sun_and_earth) \<and>
   camera ((animate ^^ 3) (togglePause sun_and_earth)) =
     fst ((update ^^ 3) (camera (togglePause sun_and_earth), snd start_view)) \<and>
   controls ((animate ^^ 3) (togglePause sun_and_earth)) =
     Orbit (snd ((update ^^ 3) (camera (togglePause sun_and_earth), snd start_view)))"
proof -
  have h: "isPaused (togglePause sun_and_earth)"
    by (simp add: togglePause_def sun_and_earth_fields)
  have k: "controls (togglePause sun_and_earth) = Orbit (snd start_view)"
    by (simp add: togglePause_def sun_and_earth_fields)
  show ?thesis
    using h k pause_freezes_orbits [OF h, of 3 "snd start_view"] by blast
qed


lemma setupControls_fields:
  "enabled (snd (setupControls cam h)) = True"
  "clientHeight (snd (setupControls cam h)) = h"
  "documentListeners (snd (setupControls cam h)) = False"
  "currentState (snd (setupControls cam h)) = NONE"
  "sphericalDelta (snd (setupControls cam h)) = \<lparr>radius = Fin 0, phi = Fin 0, theta = Fin 0\<rparr>"
  "panOffset (snd (setupControls cam h)) = Vector3 (Fin 0) (Fin 0) (Fin 0)"
  "target (snd (setupControls cam h)) = Vector3 (Fin 0) (Fin 0) (Fin 0)"
  "scale (snd (setupControls cam h)) = Fin 1"
  "zoomChanged (snd (setupControls cam h)) = False"
  "rotateStart (snd (setupControls cam h)) = Vector2 (Fin 0) (Fin 0)"
  "dollyStart (snd (setupControls cam h)) = Vector2 (Fin 0) (Fin 0)"
  "enableDamping (snd (setupControls cam h)) = True"
  "dampingFactor (snd (setupControls cam h)) = Fin 0.05"
  "minDistance (snd (setupControls cam h)) = Fin 10"
  "maxDistance (snd (setupControls cam h)) = Fin 400"
  "autoRotate (snd (setupControls cam h)) = False"
  "autoRotateSpeed (snd (setupControls cam h)) = Fin 0.5"
  "panStart (snd (setupControls cam h)) = Vector2 (Fin 0) (Fin 0)"
  by (simp_all add: setupControls_def OrbitControls_new_def update_def Let_def
      OrbitControls_fields_def add_def Vector3_def)

section \<open>What a frame does to a planet and to a moon\<close>






section \<open>One advance of the Earth\<close>

lemma sin_lower: "0 \<le> (x::real) \<Longrightarrow> x - x\<^sup>2 / 2 \<le> sin x"
proof -
  assume "0 \<le> x"
  have "\<bar>sin x - (\<Sum>m<2. sin_coeff m * x ^ m)\<bar> \<le> inverse (fact 2) * \<bar>x\<bar> ^ 2"
    by (rule Maclaurin_sin_bound)
  moreover have "(\<Sum>m<2. sin_coeff m * x ^ m) = x"
    by (simp add: sin_coeff_def lessThan_Suc numeral_2_eq_2)
  ultimately have "\<bar>sin x - x\<bar> \<le> x\<^sup>2 / 2" by simp
  then show ?thesis by linarith
qed

lemma sin_002: "0.0198 \<le> sin (0.02 :: real)"
  using sin_lower [of "0.02 :: real"] by (simp add: power2_eq_square)

lemma x2_fields:
  "globalSpeedMultiplier sun_and_earth_x2 = Fin 2"
  "planets sun_and_earth_x2 = planets sun_and_earth"
  by (simp_all add: sun_and_earth_x2_def onGlobalSpeedInput_def)

lemma planets_updatePlanets:
  "planets (updatePlanets s) =
     map (\<lambda>(k, p). (k, updatePlanet (globalSpeedMultiplier s) p)) (planets s)"
  by (simp add: updatePlanets_def Let_def)

lemma earth_after_one_advance:
  "planets (updatePlanets sun_and_earth_x2) =
     [(''earth'', \<lparr>mesh_position = Vector3 (Fin 24) (Fin 0) (Fin 0), mesh_rotation_y = Fin 0.04,
                   orbitGroup_rotation_y = Fin 0.02, data = earth_data, angle = Fin 0.02,
                   individualSpeed = Fin 1\<rparr>)]"
  by (simp add: planets_updatePlanets x2_fields sun_and_earth_planets updatePlanet_def Let_def
      earth_data_def)

text \<open>
  Claim C3, as the code has it. With the global multiplier 2 and the individual
  multiplier 1, one \<open>updatePlanets\<close> takes the Earth's angle from 0 to 0.02 and copies it
  to the rotation of the orbit group. The mesh keeps its place \<open>(24, 0, 0)\<close> inside the
  group; turned by the group, it stands in the scene at
  \<open>(24 cos 0.02, 0, - 24 sin 0.02)\<close>.
\<close>

theorem earth_one_advance:
  "map (\<lambda>(k, p). (k, angle p, orbitGroup_rotation_y p, mesh_position p, getWorldPosition p))
     (planets (updatePlanets sun_and_earth_x2)) =
   [(''earth'', Fin 0.02, Fin 0.02, Vector3 (Fin 24) (Fin 0) (Fin 0),
     Vector3 (Fin (24 * cos 0.02)) (Fin 0) (Fin (- (24 * sin 0.02))))]"
  by (simp add: earth_after_one_advance getWorldPosition_def rotateY_def Vector3_def mult.commute)

text \<open>
  The claim as the specification states it fails: after the advance the Earth's \<open>z\<close> in
  the scene is not within \<open>10\<^sup>-\<^sup>9\<close> of \<open>24 sin 0.02\<close>, and its position inside the orbit
  group is not within \<open>10\<^sup>-\<^sup>9\<close> of \<open>(24 cos 0.02, 24 sin 0.02)\<close> either.
\<close>

theorem earth_one_advance_counterexample:
  "map (\<lambda>(k, p). (near 0.000000001 (vz (getWorldPosition p)) (Fin (24 * sin 0.02)),
                   near 0.000000001 (vx (mesh_position p)) (Fin (24 * cos 0.02)) \<and>
                   near 0.000000001 (vz (mesh_position p)) (Fin (24 * sin 0.02))))
     (planets (updatePlanets sun_and_earth_x2)) = [(False, False)]"
  using sin_002
  by (simp add: earth_after_one_advance getWorldPosition_def rotateY_def Vector3_def)

section \<open>The angle of a rotate drag\<close>

lemma drag_start_fields:
  "currentState drag_start = ROTATE"
  "rotateStart drag_start = Vector2 (Fin 0) (Fin 0)"
  "clientHeight drag_start = 100"
  "sphericalDelta drag_start = \<lparr>radius = Fin 0, phi = Fin 0, theta = Fin 0\<rparr>"
  by (simp_all add: drag_start_def onMouseDown_def Let_def setupControls_fields)

text \<open>
  The claim as the specification states it fails: a drag from \<open>(0, 0)\<close> to \<open>(0, 100)\<close> on
  a canvas 100 pixels high leaves \<open>phi\<close> of \<open>sphericalDelta\<close> at \<open>- 2\<pi> / 100\<close>, not at a
  full rotation in either direction.
\<close>

theorem rotate_angle_counterexample:
  "currentState drag_start = ROTATE \<and>
   sphericalDelta drag_start = \<lparr>radius = Fin 0, phi = Fin 0, theta = Fin 0\<rparr> \<and>
   phi (sphericalDelta drag_move) = Fin (- (2 * pi * 1 / 100)) \<and>
   phi (sphericalDelta drag_move) \<noteq> Fin (- (2 * pi * 100 / 100)) \<and>
   phi (sphericalDelta drag_move) \<noteq> Fin (2 * pi * 100 / 100)"
proof -
  have "- (pi / 50) \<noteq> 2 * pi" using pi_gt_zero by linarith
  then show ?thesis
    by (simp add: drag_move_def onMouseMove_switch_def Let_def rotateLeft_def rotateUp_def
        Vector2_def subVectors2_def multiplyScalar2_def jsub_def Math_PI_def drag_start_fields)
qed

section \<open>The steps of a focus transition\<close>

lemma progress_at_eq:
  "progress_at f now = Fin (min (real_of_int (now - startTime f) / 2000) 1)"
  by (simp add: progress_at_def duration_def min_def)

lemma eased_at_eq:
  "eased_at f now = Fin (1 - (1 - min (real_of_int (now - startTime f) / 2000) 1) ^ 3)"
  by (simp add: eased_at_def progress_at_eq jsub_def whole_def)

lemma controls_target_set [simp]: "controls_target (controls_set_target t k) = t"
  by (cases k) (simp_all add: controls_target_def controls_set_target_def)

lemma start_target: "controls_target (controls sun_and_earth) = Vector3 (Fin 0) (Fin 0) (Fin 0)"
  by (simp add: sun_and_earth_fields controls_target_def start_view_def setupControls_fields)

text \<open>
  Claim C6, as the code has it. A step of the transition writes the camera position as
  the interpolation of the captured start and end positions at the eased fraction
  \<open>1 - (1 - progress)\<^sup>3\<close>, \<open>progress\<close> being \<open>min (elapsed / 2000) 1\<close>; it moves the target
  from where it currently is towards the destination by \<open>lerp\<close> with that same eased
  fraction; then the controller's \<open>update\<close> runs.
\<close>

theorem focus_step_interpolation:
  "position (camera (animateCamera_lerp f now s)) =
     lerpVectors (startPosition f) (endPosition f) (eased_at f now) \<and>
   controls_target (controls (animateCamera_lerp f now s)) =
     lerp (controls_target (controls s)) (targetPosition f) (eased_at f now) \<and>
   eased_at f now = Fin (1 - (1 - min (real_of_int (now - startTime f) / 2000) 1) ^ 3) \<and>
   fst (animateCamera f now s) = update_controls (animateCamera_lerp f now s)"
  by (simp add: animateCamera_lerp_def Let_def eased_at_eq animateCamera_def)

text \<open>
  The claim as the specification states it fails: half way through a focus on the Earth
  (progress \<open>1/2\<close>, eased fraction \<open>7/8\<close>) the step moves the target from the origin to
  \<open>(21, 0, 0)\<close>, the eased point, and not to the linear point \<open>(12, 0, 0)\<close>.
\<close>

theorem focus_step_counterexample:
  "progress_at earth_focus 1000 = Fin (1 / 2) \<and>
   eased_at earth_focus 1000 = Fin (7 / 8) \<and>
   controls_target (controls sun_and_earth) = Vector3 (Fin 0) (Fin 0) (Fin 0) \<and>
   controls_target (controls (animateCamera_lerp earth_focus 1000 sun_and_earth)) =
     Vector3 (Fin 21) (Fin 0) (Fin 0) \<and>
   lerp (controls_target (controls sun_and_earth)) (targetPosition earth_focus)
     (progress_at earth_focus 1000) = Vector3 (Fin 12) (Fin 0) (Fin 0) \<and>
   controls_target (controls (animateCamera_lerp earth_focus 1000 sun_and_earth)) \<noteq>
     lerp (controls_target (controls sun_and_earth)) (targetPosition earth_focus)
       (progress_at earth_focus 1000)"
  by (simp add: animateCamera_lerp_def Let_def start_target progress_at_eq eased_at_eq
      earth_focus_def lerp_def Vector3_def jsub_def power3_eq_cube)


section \<open>The clamp of an update\<close>

lemma jle_NaN [simp]: "\<not> jle a NaN" "\<not> jle NaN a"
  by (cases a; simp)+


lemma position_update:
  "position (fst (update v)) =
     add (add (target (snd v)) (panOffset (snd v)))
         (applyQuaternion (setFromSpherical (spherical (snd (update v)))) (invert up_rotation))"
  by (simp add: update_def Let_def rotateLeft_def up_rotation_def)

lemma sqrt_16900: "sqrt 16900 = 130"
  by (rule real_sqrt_unique) simp_all

lemma pinch_start_fields:
  "enabled pinch_start" "dollyStart pinch_start = Vector2 (Fin 0) (Fin 0)"
  "scale pinch_start = Fin 1" "currentState pinch_start = DOLLY"
  "minDistance pinch_start = Fin 10" "maxDistance pinch_start = Fin 400"
  by (simp_all add: pinch_start_def onTouchStart_def start_view_def setupControls_fields
      touch_distance_def Let_def)

lemma pinch_move_fields:
  "scale pinch_move = NaN" "zoomChanged pinch_move"
  "minDistance pinch_move = Fin 10" "maxDistance pinch_move = Fin 400"
  by (simp_all add: pinch_move_def onTouchMove_def pinch_start_fields touch_distance_def Let_def
      dollyIn_def Vector2_def inf_signed_def)



section \<open>The pinch divides without a guard\<close>

lemma touch_distance_zero: "touch_distance t0 t1 = Fin 0 \<longleftrightarrow> t0 = t1"
proof -
  obtain a b where t0: "t0 = (a, b)" by (cases t0)
  obtain c d where t1: "t1 = (c, d)" by (cases t1)
  have "sqrt ((a - c) * (a - c) + (b - d) * (b - d)) = 0 \<longleftrightarrow> a = c \<and> b = d"
    by simp
  moreover have "\<not> (a - c) * (a - c) + (b - d) * (b - d) < 0"
    by (simp add: not_less)
  ultimately show ?thesis
    by (simp add: touch_distance_def Let_def t0 t1)
qed

lemma touch_distance_Fin: "\<exists>d. touch_distance t0 t1 = Fin d \<and> 0 \<le> d"
proof -
  have "\<not> (fst t0 - fst t1) * (fst t0 - fst t1) + (snd t0 - snd t1) * (snd t0 - snd t1) < 0"
    by (simp add: not_less)
  then show ?thesis by (simp add: touch_distance_def Let_def)
qed

text \<open>
  Claim C4, as the code has it. The two-finger \<open>touchmove\<close> has no guard. When the stored
  distance of the fingers is 0, the step still runs: if the fingers are on one point
  again the quotient is \<open>0 / 0\<close> and \<open>scale\<close> becomes \<open>NaN\<close>; if they are apart the quotient
  is \<open>Infinity\<close> and \<open>scale\<close> is divided by \<open>Infinity\<close>. In both cases \<open>zoomChanged\<close> is
  set and the new distance is stored.
\<close>

theorem pinch_unguarded:
  assumes "enabled c" and "uy (dollyStart c) = Fin 0"
  shows "scale (onTouchMove [t0, t1] c) = (if t0 = t1 then NaN else jdiv (scale c) PInf) \<and>
         zoomChanged (onTouchMove [t0, t1] c) \<and>
         dollyStart (onTouchMove [t0, t1] c) = Vector2 (Fin 0) (touch_distance t0 t1)"
proof -
  obtain d where d: "touch_distance t0 t1 = Fin d" "0 \<le> d"
    using touch_distance_Fin by blast
  have z: "d = 0 \<longleftrightarrow> t0 = t1" using touch_distance_zero [of t0 t1] d by simp
  show ?thesis
    using assms d z
    by (simp add: onTouchMove_def Let_def dollyIn_def Vector2_def inf_signed_def)
qed

theorem pinch_unguarded_witness:
  "enabled pinch_start \<and> uy (dollyStart pinch_start) = Fin 0 \<and> scale pinch_start = Fin 1 \<and>
   scale (onTouchMove [(0, 0), (3, 4)] pinch_start) = Fin 0 \<and>
   zoomChanged (onTouchMove [(0, 0), (3, 4)] pinch_start) \<and>
   dollyStart (onTouchMove [(0, 0), (3, 4)] pinch_start) =
     Vector2 (Fin 0) (touch_distance (0, 0) (3, 4))"
proof -
  have a: "enabled pinch_start" and b: "uy (dollyStart pinch_start) = Fin 0"
    by (simp_all add: pinch_start_fields Vector2_def)
  show ?thesis
    using a b pinch_unguarded [OF a b, of "(0, 0)" "(3, 4)"]
    by (simp add: pinch_start_fields)
qed

text \<open>
  The claim as the specification states it fails: after two fingers landed on one point
  (stored distance 0), a \<open>touchmove\<close> with the fingers on one point is not skipped and
  substitutes nothing: it leaves \<open>scale\<close> at \<open>NaN\<close>, and the next \<open>update\<close> carries the
  \<open>NaN\<close> into the radius and into every coordinate of the camera position.
\<close>

theorem pinch_counterexample:
  "uy (dollyStart pinch_start) = Fin 0 \<and> scale pinch_start = Fin 1 \<and>
   scale pinch_move = NaN \<and> zoomChanged pinch_move \<and>
   radius (spherical (snd (update (fst start_view, pinch_move)))) = NaN \<and>
   vx (position (fst (update (fst start_view, pinch_move)))) = NaN \<and>
   vy (position (fst (update (fst start_view, pinch_move)))) = NaN \<and>
   vz (position (fst (update (fst start_view, pinch_move)))) = NaN"
  by (simp add: pinch_start_fields pinch_move_fields Vector2_def radius_update position_update
      setFromSpherical_def applyQuaternion_def up_rotation_inverse jsub_def add_def Let_def)


section \<open>The end of a focus transition\<close>

lemma progress_done: "2000 \<le> now - startTime f \<Longrightarrow> progress_at f now = Fin 1 \<and> eased_at f now = Fin 1"
  by (simp add: progress_at_eq eased_at_eq min_def)

lemma lerp_one:
  "lerp (Vector3 (Fin a) (Fin b) (Fin c)) (Vector3 (Fin x) (Fin y) (Fin z)) (Fin 1) =
     Vector3 (Fin x) (Fin y) (Fin z)"
  by (simp add: lerp_def Vector3_def jsub_def)

lemma lerpVectors_one:
  "lerpVectors (Vector3 (Fin a) (Fin b) (Fin c)) (Vector3 (Fin x) (Fin y) (Fin z)) (Fin 1) =
     Vector3 (Fin x) (Fin y) (Fin z)"
  by (simp add: lerpVectors_def Vector3_def jsub_def)

lemma lerp_zero:
  "lerp (Vector3 (Fin a) (Fin b) (Fin c)) (Vector3 (Fin x) (Fin y) (Fin z)) (Fin 0) =
     Vector3 (Fin a) (Fin b) (Fin c)"
  by (simp add: lerp_def Vector3_def jsub_def)

lemma update_at_rest:
  assumes "at_rest c"
  shows "at_rest (snd (update (cam, c)))"
proof -
  obtain k where k: "dampingFactor c = Fin k"
    using assms by (cases "dampingFactor c") (simp_all add: at_rest_def is_finite_def)
  show ?thesis
    using assms k
    by (simp add: at_rest_def update_def Let_def multiplyScalar_def Vector3_def jsub_def
        is_finite_def)
qed

lemma update_target_at_rest:
  "at_rest c \<Longrightarrow> target c = Vector3 (Fin a) (Fin b) (Fin d) \<Longrightarrow>
   target (snd (update (cam, c))) = Vector3 (Fin a) (Fin b) (Fin d)"
  by (simp add: target_update at_rest_def add_def Vector3_def)

lemma clamp_id: "jle lo x \<Longrightarrow> jle x hi \<Longrightarrow> Math_max lo (Math_min hi x) = x"
  by (cases lo; cases hi; cases x) auto

lemma arccos_third_bounds: "1 / 1000000 < arccos (1 / 3) \<and> arccos (1 / 3) < pi - 1 / 1000000"
proof -
  have "arccos (1 / 2) \<le> arccos (1 / 3 :: real)"
    by (rule arccos_le_arccos) simp_all
  moreover have "arccos (1 / 2) = pi / 3"
    using arccos_cos [of "pi / 3"] by (simp add: cos_60)
  moreover have "arccos (1 / 3 :: real) \<le> pi / 2"
    by (rule arccos_le_pi2) simp_all
  ultimately show ?thesis using pi_ge_two by simp
qed

lemma vantage_spherical:
  assumes "0 < d"
  shows "setFromVector3 \<lparr>vx = Fin d, vy = Fin (d / 2), vz = Fin d\<rparr> =
           \<lparr>radius = Fin (3 * d / 2), phi = Fin (arccos (1 / 3)), theta = Fin (pi / 4)\<rparr>"
proof -
  have sq: "sqrt (d * d + d / 2 * (d / 2) + d * d) = 3 * d / 2"
    using assms by (intro real_sqrt_unique) (simp_all add: power2_eq_square field_simps)
  have nn: "\<not> d * d + d / 2 * (d / 2) + d * d < 0"
    by (simp add: not_less)
  have len: "length3 \<lparr>vx = Fin d, vy = Fin (d / 2), vz = Fin d\<rparr> = Fin (3 * d / 2)"
    using sq nn by (simp add: length3_def lengthSq_def)
  have q: "d / 2 / (3 * d / 2) = 1 / 3"
    using assms by (simp add: field_simps)
  show ?thesis
    using assms q
    by (simp add: setFromVector3_def len Let_def clamp_def arctan_one)
qed

lemma vantage_back:
  "setFromSpherical \<lparr>radius = Fin (3 * d / 2), phi = Fin (arccos (1 / 3)), theta = Fin (pi / 4)\<rparr> =
     \<lparr>vx = Fin d, vy = Fin (d / 2), vz = Fin d\<rparr>"
proof -
  have s: "sin (arccos (1 / 3 :: real)) = sqrt (8 / 9)"
    by (simp add: sin_arccos_abs power2_eq_square)
  have "sqrt (8 / 9) * sqrt 2 = sqrt (16 / 9 :: real)"
    by (simp add: real_sqrt_mult [symmetric])
  moreover have "sqrt (16 / 9 :: real) = 4 / 3"
    by (rule real_sqrt_unique) (simp_all add: power2_eq_square)
  ultimately have m: "sqrt (8 / 9) * sqrt 2 = (4 / 3 :: real)" by simp
  have x: "sqrt (8 / 9) * (3 * d / 2) * (sqrt 2 / 2) = d"
  proof -
    have "sqrt (8 / 9) * (3 * d / 2) * (sqrt 2 / 2) = (sqrt (8 / 9) * sqrt 2) * (3 * d / 4)"
      by (simp add: algebra_simps)
    then show ?thesis using m by simp
  qed
  show ?thesis
    using x by (simp add: setFromSpherical_def Let_def Vector3_def s sin_45 cos_45)
qed


lemma spherical_update_rest:
  assumes "at_rest c"
  shows "spherical (snd (update (cam, c))) =
     \<lparr>radius = Math_max (minDistance c) (Math_min (maxDistance c)
                 (jmul (radius (setFromVector3
                          (applyQuaternion (sub (position cam) (target c)) up_rotation)))
                       (Fin 1))),
      phi = Math_max (Fin 0.000001) (Math_min (jsub Math_PI (Fin 0.000001))
              (jadd (phi (setFromVector3
                       (applyQuaternion (sub (position cam) (target c)) up_rotation)))
                    (Fin 0))),
      theta = jadd (theta (setFromVector3
                      (applyQuaternion (sub (position cam) (target c)) up_rotation)))
                   (Fin 0)\<rparr>"
  using assms by (simp add: at_rest_def update_def Let_def up_rotation_def)

lemma update_position_vantage:
  assumes "at_rest c"
    and "target c = \<lparr>vx = Fin x, vy = Fin y, vz = Fin z\<rparr>"
    and "position cam = \<lparr>vx = Fin (x + d), vy = Fin (y + d / 2), vz = Fin (z + d)\<rparr>"
    and "0 < d"
    and "jle (minDistance c) (Fin (3 * d / 2))" and "jle (Fin (3 * d / 2)) (maxDistance c)"
  shows "position (fst (update (cam, c))) = position cam"
proof -
  have off: "applyQuaternion (sub (position cam) (target c)) up_rotation =
               \<lparr>vx = Fin d, vy = Fin (d / 2), vz = Fin d\<rparr>"
    using assms(2,3) by (simp add: sub_def jsub_def applyQuaternion_finite)
  have ph: "Math_max (Fin 0.000001) (Math_min (jsub Math_PI (Fin 0.000001)) (Fin (arccos (1 / 3)))) =
            Fin (arccos (1 / 3))"
    using arccos_third_bounds by (intro clamp_id) (simp_all add: jsub_def Math_PI_def)
  have ra: "Math_max (minDistance c) (Math_min (maxDistance c) (Fin (3 * d / 2))) = Fin (3 * d / 2)"
    using assms(5,6) by (rule clamp_id)
  have sp: "spherical (snd (update (cam, c))) =
              \<lparr>radius = Fin (3 * d / 2), phi = Fin (arccos (1 / 3)), theta = Fin (pi / 4)\<rparr>"
    using ph ra
    by (simp add: spherical_update_rest [OF assms(1)] off vantage_spherical [OF assms(4)])
  have pan: "panOffset c = \<lparr>vx = Fin 0, vy = Fin 0, vz = Fin 0\<rparr>"
    using assms(1) by (simp add: at_rest_def Vector3_def)
  show ?thesis
    by (simp add: position_update sp vantage_back applyQuaternion_finite assms(2,3) pan add_def)
qed

lemma focus_destination_planet:
  "objectName \<noteq> ''sun'' \<Longrightarrow> map_of (planets s0) objectName = Some p \<Longrightarrow>
   focus_destination objectName s0 = Some (getWorldPosition p, Fin (data_radius (data p) * 8))"
  by (simp add: focus_destination_def)

lemma focusOnObject_Some:
  "focus_destination objectName s0 = Some (tp, d) \<Longrightarrow>
   snd (focusOnObject objectName t0 t1 s0) = Some f \<Longrightarrow>
   f = \<lparr>startPosition = position (camera s0),
        endPosition = add tp (Vector3 d (jmul d (Fin 0.5)) d),
        targetPosition = tp, startTime = t0\<rparr>"
  by (simp add: focusOnObject_def Let_def split: if_splits)

lemma update_controls_Orbit:
  "controls s = Orbit c \<Longrightarrow>
   camera (update_controls s) = fst (update (camera s, c)) \<and>
   controls (update_controls s) = Orbit (snd (update (camera s, c)))"
  by (simp add: update_controls_def Let_def)

text \<open>
  Claim C7, as the code has it. Let a focus on a planet have been started at the time
  \<open>t0\<close>, when the planet stood at \<open>(x, y, z)\<close> in the scene, and let a step of the
  transition run at least 2000 ms later on an orbit controller. The step's
  interpolation writes the precomputed end position, \<open>(x + 8r, y + 4r, z + 8r)\<close> for the
  planet's radius \<open>r\<close>, to the camera, and sets the target to the position the planet
  had when the focus started; the step asks for no further frame. Its closing \<open>update\<close>
  adds the pending pan offset to the target. When the controller is at rest and \<open>12r\<close>,
  the distance of the end position from the target, lies within the distance limits,
  the camera position is the end position after the \<open>update\<close> as well.
\<close>

theorem focus_final_step:
  assumes "objectName \<noteq> ''sun''" and "map_of (planets s0) objectName = Some p"
    and "getWorldPosition p = Vector3 (Fin x) (Fin y) (Fin z)"
    and "snd (focusOnObject objectName t0 t1 s0) = Some f"
    and "position (camera s0) = Vector3 (Fin a1) (Fin a2) (Fin a3)"
    and "controls s = Orbit c" and "target c = Vector3 (Fin b1) (Fin b2) (Fin b3)"
    and "2000 \<le> now - t0"
  shows "position (camera (animateCamera_lerp f now s)) =
           Vector3 (Fin (x + 8 * data_radius (data p))) (Fin (y + 4 * data_radius (data p)))
                   (Fin (z + 8 * data_radius (data p))) \<and>
         controls_target (controls (animateCamera_lerp f now s)) = getWorldPosition p \<and>
         \<not> snd (animateCamera f now s) \<and>
         controls_target (controls (fst (animateCamera f now s))) =
           add (getWorldPosition p) (panOffset c) \<and>
         (at_rest c \<and> 0 < data_radius (data p) \<and>
          jle (minDistance c) (Fin (12 * data_radius (data p))) \<and>
          jle (Fin (12 * data_radius (data p))) (maxDistance c) \<longrightarrow>
            position (camera (fst (animateCamera f now s))) =
              Vector3 (Fin (x + 8 * data_radius (data p))) (Fin (y + 4 * data_radius (data p)))
                      (Fin (z + 8 * data_radius (data p))))"
proof -
  let ?r = "data_radius (data p)"
  have fd: "focus_destination objectName s0 = Some (Vector3 (Fin x) (Fin y) (Fin z), Fin (?r * 8))"
    using focus_destination_planet [OF assms(1,2)] assms(3) by simp
  have f: "f = \<lparr>startPosition = Vector3 (Fin a1) (Fin a2) (Fin a3),
                endPosition = Vector3 (Fin (x + 8 * ?r)) (Fin (y + 4 * ?r)) (Fin (z + 8 * ?r)),
                targetPosition = Vector3 (Fin x) (Fin y) (Fin z), startTime = t0\<rparr>"
    using focusOnObject_Some [OF fd assms(4)] assms(5)
    by (simp add: add_def Vector3_def algebra_simps)
  have prog: "progress_at f now = Fin 1" "eased_at f now = Fin 1"
    using progress_done [where f = f and now = now] assms(8) f by simp_all
  have tgt: "controls_target (controls s) = Vector3 (Fin b1) (Fin b2) (Fin b3)"
    using assms(6,7) by (simp add: controls_target_def)
  have p1: "position (camera (animateCamera_lerp f now s)) =
              Vector3 (Fin (x + 8 * ?r)) (Fin (y + 4 * ?r)) (Fin (z + 8 * ?r))"
    by (simp add: animateCamera_lerp_def Let_def prog) (simp add: f lerpVectors_one)
  have p2: "controls_target (controls (animateCamera_lerp f now s)) = Vector3 (Fin x) (Fin y) (Fin z)"
    by (simp add: animateCamera_lerp_def Let_def prog tgt) (simp add: f lerp_one)
  have p3: "\<not> snd (animateCamera f now s)"
    by (simp add: animateCamera_def prog)
  have ctl: "controls (animateCamera_lerp f now s) = Orbit (c\<lparr>target := Vector3 (Fin x) (Fin y) (Fin z)\<rparr>)"
    using assms(6,7)
    by (simp add: animateCamera_lerp_def Let_def controls_set_target_def controls_target_def prog)
      (simp add: f lerp_one)
  have cam: "camera (animateCamera_lerp f now s) =
               (camera s)\<lparr>position := Vector3 (Fin (x + 8 * ?r)) (Fin (y + 4 * ?r)) (Fin (z + 8 * ?r))\<rparr>"
    by (simp add: animateCamera_lerp_def Let_def prog) (simp add: f lerpVectors_one)
  note uc = update_controls_Orbit [OF ctl]
  have p4: "controls_target (controls (fst (animateCamera f now s))) =
              add (Vector3 (Fin x) (Fin y) (Fin z)) (panOffset c)"
    using uc by (simp add: animateCamera_def controls_target_def target_update)
  have p5: "position (camera (fst (animateCamera f now s))) =
              Vector3 (Fin (x + 8 * ?r)) (Fin (y + 4 * ?r)) (Fin (z + 8 * ?r))"
    if rest: "at_rest c" and pos: "0 < ?r"
      and lo: "jle (minDistance c) (Fin (12 * ?r))" and hi: "jle (Fin (12 * ?r)) (maxDistance c)"
  proof -
    let ?c = "c\<lparr>target := Vector3 (Fin x) (Fin y) (Fin z)\<rparr>"
    let ?cam = "(camera s)\<lparr>position := Vector3 (Fin (x + 8 * ?r)) (Fin (y + 4 * ?r)) (Fin (z + 8 * ?r))\<rparr>"
    have a: "at_rest ?c" using rest by (simp add: at_rest_def)
    have b: "target ?c = \<lparr>vx = Fin x, vy = Fin y, vz = Fin z\<rparr>" by (simp add: Vector3_def)
    have d: "position ?cam = \<lparr>vx = Fin (x + 8 * ?r), vy = Fin (y + 8 * ?r / 2), vz = Fin (z + 8 * ?r)\<rparr>"
      by (simp add: Vector3_def)
    have e: "0 < 8 * ?r" using pos by simp
    have l1: "jle (minDistance ?c) (Fin (3 * (8 * ?r) / 2))" using lo by simp
    have l2: "jle (Fin (3 * (8 * ?r) / 2)) (maxDistance ?c)" using hi by simp
    have "position (fst (update (?cam, ?c))) = position ?cam"
      by (rule update_position_vantage [OF a b d e l1 l2])
    then show ?thesis
      using uc by (simp add: animateCamera_def cam)
  qed
  show ?thesis
    using p1 p2 p3 p4 p5 assms(3) by simp
qed


lemma fields_at_rest: "at_rest (OrbitControls_fields h)"
  by (simp add: at_rest_def OrbitControls_fields_def is_finite_def)

lemma start_at_rest: "at_rest (snd (setupControls cam h))"
  by (simp add: at_rest_def setupControls_fields is_finite_def)

lemma arccos_5_13_bounds: "1 / 1000000 < arccos (5 / 13) \<and> arccos (5 / 13) < pi - 1 / 1000000"
proof -
  have "arccos (1 / 2) \<le> arccos (5 / 13 :: real)"
    by (rule arccos_le_arccos) simp_all
  moreover have "arccos (1 / 2) = pi / 3"
    using arccos_cos [of "pi / 3"] by (simp add: cos_60)
  moreover have "arccos (5 / 13 :: real) \<le> pi / 2"
    by (rule arccos_le_pi2) simp_all
  ultimately show ?thesis using pi_ge_two by simp
qed

lemma start_camera: "fst (setupControls setupCamera h) = setupCamera"
proof -
  let ?c = "OrbitControls_fields h"
  have off: "applyQuaternion (sub (position setupCamera) (target ?c)) up_rotation =
               \<lparr>vx = Fin 0, vy = Fin 50, vz = Fin 120\<rparr>"
    by (simp add: setupCamera_def OrbitControls_fields_def sub_def jsub_def Vector3_def
        applyQuaternion_finite)
  have sv: "setFromVector3 \<lparr>vx = Fin 0, vy = Fin 50, vz = Fin 120\<rparr> =
              \<lparr>radius = Fin 130, phi = Fin (arccos (5 / 13)), theta = Fin 0\<rparr>"
    by (simp add: setFromVector3_def length3_def lengthSq_def Let_def sqrt_16900 clamp_def)
  have ph: "Math_max (Fin 0.000001) (Math_min (jsub Math_PI (Fin 0.000001)) (Fin (arccos (5 / 13)))) =
            Fin (arccos (5 / 13))"
    using arccos_5_13_bounds by (intro clamp_id) (simp_all add: jsub_def Math_PI_def)
  have sp: "spherical (snd (update (setupCamera, ?c))) =
              \<lparr>radius = Fin 130, phi = Fin (arccos (5 / 13)), theta = Fin 0\<rparr>"
    using ph by (simp add: spherical_update_rest [OF fields_at_rest] off sv)
      (simp add: OrbitControls_fields_def)
  have "sqrt (144 / 169 :: real) = 12 / 13"
    by (rule real_sqrt_unique) (simp_all add: power2_eq_square)
  then have s: "sin (arccos (5 / 13 :: real)) = 12 / 13"
    by (simp add: sin_arccos_abs power2_eq_square)
  have bk: "setFromSpherical \<lparr>radius = Fin 130, phi = Fin (arccos (5 / 13)), theta = Fin 0\<rparr> =
                \<lparr>vx = Fin 0, vy = Fin 50, vz = Fin 120\<rparr>"
    by (simp add: setFromSpherical_def Let_def s)
  have pos: "position (fst (update (setupCamera, ?c))) = position setupCamera"
    by (simp add: position_update sp bk applyQuaternion_finite)
      (simp add: OrbitControls_fields_def setupCamera_def add_def Vector3_def)
  have fv: "fov (fst (update (setupCamera, ?c))) = fov setupCamera"
    by (simp add: update_keeps)
  show ?thesis
    using pos fv by (simp add: setupControls_def OrbitControls_new_def Let_def)
qed

lemma earth_destination:
  "focus_destination ''earth'' sun_and_earth = Some (Vector3 (Fin 24) (Fin 0) (Fin 0), Fin 16)"
  by (simp add: focus_destination_def sun_and_earth_planets getWorldPosition_def rotateY_def
      Vector3_def earth_data_def)

lemma sun_and_earth_camera: "position (camera sun_and_earth) = Vector3 (Fin 0) (Fin 50) (Fin 120)"
  by (simp add: sun_and_earth_fields start_view_def start_camera) (simp add: setupCamera_def)

lemma earth_focus_started: "snd (focusOnObject ''earth'' 0 0 sun_and_earth) = Some earth_focus"
  by (simp add: focusOnObject_def earth_destination Let_def animateCamera_def progress_at_eq
      earth_focus_def add_def Vector3_def)


lemma earth_world:
  "getWorldPosition \<lparr>mesh_position = Vector3 (Fin 24) (Fin 0) (Fin 0), mesh_rotation_y = Fin 0,
                     orbitGroup_rotation_y = Fin 0, data = earth_data, angle = Fin 0,
                     individualSpeed = Fin 1\<rparr> = Vector3 (Fin 24) (Fin 0) (Fin 0)"
  by (simp add: getWorldPosition_def rotateY_def Vector3_def)

theorem focus_final_step_witness:
  "''earth'' \<noteq> ''sun'' \<and>
   map_of (planets sun_and_earth) ''earth'' =
     Some \<lparr>mesh_position = Vector3 (Fin 24) (Fin 0) (Fin 0), mesh_rotation_y = Fin 0,
           orbitGroup_rotation_y = Fin 0, data = earth_data, angle = Fin 0,
           individualSpeed = Fin 1\<rparr> \<and>
   snd (focusOnObject ''earth'' 0 0 sun_and_earth) = Some earth_focus \<and>
   position (camera sun_and_earth) = Vector3 (Fin 0) (Fin 50) (Fin 120) \<and>
   controls sun_and_earth = Orbit (snd start_view) \<and>
   target (snd start_view) = Vector3 (Fin 0) (Fin 0) (Fin 0) \<and>
   (2000 :: int) \<le> 2000 - 0 \<and>
   at_rest (snd start_view) \<and>
   jle (minDistance (snd start_view)) (Fin 24) \<and> jle (Fin 24) (maxDistance (snd start_view)) \<and>
   position (camera (animateCamera_lerp earth_focus 2000 sun_and_earth)) =
     Vector3 (Fin 40) (Fin 8) (Fin 16) \<and>
   controls_target (controls (animateCamera_lerp earth_focus 2000 sun_and_earth)) =
     Vector3 (Fin 24) (Fin 0) (Fin 0) \<and>
   \<not> snd (animateCamera earth_focus 2000 sun_and_earth) \<and>
   controls_target (controls (fst (animateCamera earth_focus 2000 sun_and_earth))) =
     Vector3 (Fin 24) (Fin 0) (Fin 0) \<and>
   position (camera (fst (animateCamera earth_focus 2000 sun_and_earth))) =
     Vector3 (Fin 40) (Fin 8) (Fin 16)"
proof -
  let ?p = "\<lparr>mesh_position = Vector3 (Fin 24) (Fin 0) (Fin 0), mesh_rotation_y = Fin 0,
             orbitGroup_rotation_y = Fin 0, data = earth_data, angle = Fin 0,
             individualSpeed = Fin 1\<rparr>"
  have h1: "''earth'' \<noteq> ''sun''" by simp
  have h2: "map_of (planets sun_and_earth) ''earth'' = Some ?p"
    by (simp add: sun_and_earth_planets)
  have h5: "position (camera sun_and_earth) = Vector3 (Fin 0) (Fin 50) (Fin 120)"
    by (rule sun_and_earth_camera)
  have h6: "controls sun_and_earth = Orbit (snd start_view)"
    by (simp add: sun_and_earth_fields)
  have h7: "target (snd start_view) = Vector3 (Fin 0) (Fin 0) (Fin 0)"
    by (simp add: start_view_def setupControls_fields)
  have h8: "(2000 :: int) \<le> 2000 - 0" by simp
  have r: "at_rest (snd start_view)" by (simp add: start_view_def start_at_rest)
  have lo: "jle (minDistance (snd start_view)) (Fin 24)"
    and hi: "jle (Fin 24) (maxDistance (snd start_view))"
    and pan: "panOffset (snd start_view) = Vector3 (Fin 0) (Fin 0) (Fin 0)"
    by (simp_all add: start_view_def setupControls_fields)
  note t = focus_final_step [OF h1 h2 earth_world earth_focus_started h5 h6 h7 h8]
  have z: "add (Vector3 (Fin 24) (Fin 0) (Fin 0)) (Vector3 (Fin 0) (Fin 0) (Fin 0)) =
             Vector3 (Fin 24) (Fin 0) (Fin 0)"
    by (simp add: add_def Vector3_def)
  have rad: "data_radius (data ?p) = 2" by (simp add: earth_data_def)
  note t' = t [unfolded earth_world pan z rad]
  have c1: "position (camera (animateCamera_lerp earth_focus 2000 sun_and_earth)) =
              Vector3 (Fin 40) (Fin 8) (Fin 16)"
    and c2: "controls_target (controls (animateCamera_lerp earth_focus 2000 sun_and_earth)) =
              Vector3 (Fin 24) (Fin 0) (Fin 0)"
    and c3: "\<not> snd (animateCamera earth_focus 2000 sun_and_earth)"
    and c4: "controls_target (controls (fst (animateCamera earth_focus 2000 sun_and_earth))) =
              Vector3 (Fin 24) (Fin 0) (Fin 0)"
    using t' by simp_all
  have c5: "position (camera (fst (animateCamera earth_focus 2000 sun_and_earth))) =
              Vector3 (Fin 40) (Fin 8) (Fin 16)"
    using t' r lo hi by simp
  show ?thesis
    using h1 h2 earth_focus_started h5 h6 h7 h8 r lo hi c1 c2 c3 c4 c5 by blast
qed

lemma animateCamera_keeps:
  "planets (fst (animateCamera f now s)) = planets s"
  "isPaused (fst (animateCamera f now s)) = isPaused s"
  "globalSpeedMultiplier (fst (animateCamera f now s)) = globalSpeedMultiplier s"
  by (simp_all add: animateCamera_def update_controls_keeps animateCamera_lerp_def Let_def)

lemma rest_update_controls:
  assumes "controls s = Orbit c" and "at_rest c"
    and "target c = Vector3 (Fin a) (Fin b) (Fin d)"
  shows "\<exists>c'. controls (update_controls s) = Orbit c' \<and> at_rest c' \<and>
              target c' = Vector3 (Fin a) (Fin b) (Fin d)"
  using update_controls_Orbit [OF assms(1)] update_at_rest [OF assms(2)]
    update_target_at_rest [OF assms(2,3)]
  by simp

lemma rest_animateCamera:
  assumes "controls s = Orbit c" and "at_rest c"
    and "target c = Vector3 (Fin a) (Fin b) (Fin d)"
    and "targetPosition f = Vector3 (Fin x) (Fin y) (Fin z)"
    and "eased_at f now = Fin e"
  shows "\<exists>c'. controls (fst (animateCamera f now s)) = Orbit c' \<and> at_rest c' \<and>
              target c' = Vector3 (Fin (a + (x - a) * e)) (Fin (b + (y - b) * e))
                                  (Fin (d + (z - d) * e))"
proof -
  let ?t = "Vector3 (Fin (a + (x - a) * e)) (Fin (b + (y - b) * e)) (Fin (d + (z - d) * e))"
  have ctl: "controls (animateCamera_lerp f now s) = Orbit (c\<lparr>target := ?t\<rparr>)"
    using assms
    by (simp add: animateCamera_lerp_def Let_def controls_set_target_def controls_target_def
        lerp_def Vector3_def jsub_def)
  have r: "at_rest (c\<lparr>target := ?t\<rparr>)" using assms(2) by (simp add: at_rest_def)
  have t: "target (c\<lparr>target := ?t\<rparr>) = ?t" by simp
  show ?thesis
    using rest_update_controls [OF ctl r t] by (simp add: animateCamera_def)
qed


lemma sin_001: "0 < sin (0.01 :: real)"
  by (rule sin_gt_zero_02) simp_all

lemma earth_focus_fields:
  "targetPosition earth_focus = Vector3 (Fin 24) (Fin 0) (Fin 0)"
  "startTime earth_focus = 0"
  by (simp_all add: earth_focus_def)

text \<open>
  The claim as the specification states it fails: 2000 ms after a focus on the Earth was
  started in the running system, the transition has ended with the target at
  \<open>(24, 0, 0)\<close>, where the Earth stood when the focus started, while the frame has moved
  the Earth on to \<open>(24 cos 0.01, 0, - 24 sin 0.01)\<close>.
\<close>

theorem focus_target_counterexample:
  "snd focus_started = Some earth_focus \<and>
   snd focus_ended = [] \<and>
   controls_target (controls (fst focus_ended)) = Vector3 (Fin 24) (Fin 0) (Fin 0) \<and>
   map (\<lambda>(k, p). (k, getWorldPosition p)) (planets (fst focus_ended)) =
     [(''earth'', Vector3 (Fin (24 * cos 0.01)) (Fin 0) (Fin (- (24 * sin 0.01))))] \<and>
   Vector3 (Fin (24 * cos 0.01)) (Fin 0) (Fin (- (24 * sin 0.01))) \<noteq>
     Vector3 (Fin 24) (Fin 0) (Fin 0)"
proof -
  let ?s0 = "sun_and_earth"
  let ?s1 = "fst (animateCamera earth_focus 0 ?s0)"
  have again: "snd (animateCamera earth_focus 0 sun_and_earth)"
    by (simp add: animateCamera_def progress_at_eq earth_focus_fields)
  have st: "focus_started = (?s1, Some earth_focus)"
    unfolding focus_started_def focusOnObject_def earth_destination
    by (simp add: Let_def earth_focus_def [symmetric] again)
  have c0: "controls ?s0 = Orbit (snd start_view)" by (simp add: sun_and_earth_fields)
  have r0: "at_rest (snd start_view)" by (simp add: start_view_def start_at_rest)
  have t0: "target (snd start_view) = Vector3 (Fin 0) (Fin 0) (Fin 0)"
    by (simp add: start_view_def setupControls_fields)
  have e0: "eased_at earth_focus 0 = Fin 0"
    by (simp add: eased_at_eq earth_focus_fields)
  obtain c1 where c1: "controls ?s1 = Orbit c1" "at_rest c1"
      "target c1 = Vector3 (Fin 0) (Fin 0) (Fin 0)"
    using rest_animateCamera [OF c0 r0 t0 earth_focus_fields(1) e0] by auto
  let ?s2 = "animate ?s1"
  have unp: "\<not> isPaused ?s1" by (simp add: animateCamera_keeps sun_and_earth_fields)
  have a2: "?s2 = update_controls (updateStarField (updatePlanets ?s1))"
    using unp by (simp add: animate_def)
  have c1': "controls (updateStarField (updatePlanets ?s1)) = Orbit c1"
    using c1(1) by (simp add: updateStarField_def updatePlanets_def Let_def)
  obtain c2 where c2: "controls ?s2 = Orbit c2" "at_rest c2"
      "target c2 = Vector3 (Fin 0) (Fin 0) (Fin 0)"
    using rest_update_controls [OF c1' c1(2,3)] a2 by auto
  have p2: "planets ?s2 =
     [(''earth'', \<lparr>mesh_position = Vector3 (Fin 24) (Fin 0) (Fin 0), mesh_rotation_y = Fin 0.02,
                   orbitGroup_rotation_y = Fin 0.01, data = earth_data, angle = Fin 0.01,
                   individualSpeed = Fin 1\<rparr>)]"
    by (simp add: a2 update_controls_keeps updateStarField_def planets_updatePlanets
        animateCamera_keeps sun_and_earth_fields sun_and_earth_planets updatePlanet_def Let_def
        earth_data_def)
  let ?s3 = "fst (animateCamera earth_focus 2000 ?s2)"
  have e1: "eased_at earth_focus 2000 = Fin 1" "progress_at earth_focus 2000 = Fin 1"
    by (simp_all add: eased_at_eq progress_at_eq earth_focus_fields)
  obtain c3 where c3: "controls ?s3 = Orbit c3"
      "target c3 = Vector3 (Fin 24) (Fin 0) (Fin 0)"
    using rest_animateCamera [OF c2 earth_focus_fields(1) e1(1)] by auto
  have en: "focus_ended = (?s3, [])"
    by (simp add: focus_ended_def frame_def st Let_def animateCamera_def e1)
  have tg: "controls_target (controls (fst focus_ended)) = Vector3 (Fin 24) (Fin 0) (Fin 0)"
    using c3 by (simp add: en controls_target_def)
  have wp: "map (\<lambda>(k, p). (k, getWorldPosition p)) (planets (fst focus_ended)) =
     [(''earth'', Vector3 (Fin (24 * cos 0.01)) (Fin 0) (Fin (- (24 * sin 0.01))))]"
    by (simp add: en animateCamera_keeps p2 getWorldPosition_def rotateY_def Vector3_def
        mult.commute)
  have ne: "Vector3 (Fin (24 * cos 0.01)) (Fin 0) (Fin (- (24 * sin 0.01))) \<noteq>
     Vector3 (Fin 24) (Fin 0) (Fin 0)"
    using sin_001 by (simp add: Vector3_def)
  have s1: "snd focus_started = Some earth_focus" by (simp add: st)
  have s2: "snd focus_ended = []" by (simp add: en)
  show ?thesis
    using s1 s2 tg wp ne by blast
qed

section \<open>Finite numbers are closed under the arithmetic\<close>


lemma is_finite_Fin [simp]: "is_finite (Fin r)"
  by (simp add: is_finite_def)












section \<open>An update keeps a state in good order and clamps it\<close>

lemma theta_update:
  "theta (spherical (snd (update v))) =
     jadd (theta (setFromVector3
             (applyQuaternion (sub (position (fst v)) (target (snd v))) up_rotation)))
          (if autoRotate (snd v) \<and> currentState (snd v) = NONE
           then jsub (theta (sphericalDelta (snd v))) (getAutoRotationAngle (snd v))
           else theta (sphericalDelta (snd v)))"
  by (simp add: update_def Let_def rotateLeft_def up_rotation_def getAutoRotationAngle_def)

lemma sphericalDelta_update:
  "theta (sphericalDelta (snd (update v))) =
     (if enableDamping (snd v)
      then jmul (if autoRotate (snd v) \<and> currentState (snd v) = NONE
                 then jsub (theta (sphericalDelta (snd v))) (getAutoRotationAngle (snd v))
                 else theta (sphericalDelta (snd v)))
                (jsub (Fin 1) (dampingFactor (snd v)))
      else Fin 0)"
  "phi (sphericalDelta (snd (update v))) =
     (if enableDamping (snd v)
      then jmul (phi (sphericalDelta (snd v))) (jsub (Fin 1) (dampingFactor (snd v)))
      else Fin 0)"
  by (simp_all add: update_def Let_def rotateLeft_def getAutoRotationAngle_def)








section \<open>The handlers keep a state in good order\<close>

lemma fin2_Vector2 [simp]: "fin2 (Vector2 (Fin a) (Fin b))"
  by (simp add: fin2_def Vector2_def)
















section \<open>The clamp holds along input sequences\<close>







text \<open>
  A sequence the invariant covers: a rotate drag, a wheel step and a pinch with the
  fingers apart, on the state the program starts with, and then a frame.
\<close>

lemma enabled_onMouseMove_switch: "enabled (onMouseMove_switch ev cam c) = enabled c"
  by (cases "currentState c")
    (simp_all add: onMouseMove_switch_def Let_def rotateLeft_def rotateUp_def dollyIn_def
      dollyOut_def pan_def)

lemma enabled_dispatch [simp]: "enabled (snd (dispatch i v)) = enabled (snd v)"
proof -
  obtain cam c where v: "v = (cam, c)" by (cases v)
  show ?thesis
  proof (cases i)
    case (TouchStart ts)
    then show ?thesis
      by (cases "(ts, c)" rule: onTouchStart_switch.cases) (simp_all add: v onTouchStart_def)
  next
    case (TouchMove ts)
    then show ?thesis
      by (cases "(ts, c)" rule: onTouchMove_switch.cases)
        (simp_all add: v onTouchMove_def Let_def rotateLeft_def rotateUp_def dollyIn_def)
  qed (simp_all add: v onMouseDown_def Let_def onMouseMove_def onMouseUp_def onMouseWheel_def
        onTouchEnd_def update_keeps enabled_onMouseMove_switch dollyIn_def dollyOut_def)
qed




section \<open>A rotate drag through its handler\<close>


lemma drag_start_more:
  "enabled drag_start = True"
  "enableDamping drag_start = True"
  "dampingFactor drag_start = Fin 0.05"
  "target drag_start = Vector3 (Fin 0) (Fin 0) (Fin 0)"
  by (simp_all add: drag_start_def onMouseDown_def Let_def setupControls_fields)

lemma rotate_switch_keeps:
  assumes "currentState c = ROTATE"
  shows "target (onMouseMove_switch ev cam c) = target c"
    and "currentState (onMouseMove_switch ev cam c) = ROTATE"
    and "enableDamping (onMouseMove_switch ev cam c) = enableDamping c"
    and "dampingFactor (onMouseMove_switch ev cam c) = dampingFactor c"
  using assms by (simp_all add: onMouseMove_switch_def Let_def rotateLeft_def rotateUp_def)

text \<open>
  Claim C2, as the code has it. A mouse move in the \<open>ROTATE\<close> state, and a one-finger
  touch move in any state, scale the pixel delta from the last recorded point by 0.01
  first and then by \<open>2\<pi>\<close> over the height of the canvas; the angles are subtracted from
  \<open>sphericalDelta\<close> (\<open>theta\<close> for the horizontal delta, \<open>phi\<close> for the vertical one). The
  mouse handler then ends with \<open>update\<close>: it adds the accumulated delta to the angles
  recomputed from the camera (\<open>phi\<close> clamped) and leaves in \<open>sphericalDelta\<close> the delta
  times \<open>1 - dampingFactor\<close> when damping is enabled, 0 otherwise. The touch handler
  is its \<open>switch\<close> alone: it calls no \<open>update\<close>.
\<close>

theorem rotate_angle:
  assumes "rotateStart c = Vector2 (Fin x0) (Fin y0)" and "0 < clientHeight c"
  shows
    "(currentState c = ROTATE \<longrightarrow>
        sphericalDelta (onMouseMove_switch ev cam c) =
          (sphericalDelta c)
            \<lparr>theta := jsub (theta (sphericalDelta c))
                        (Fin (2 * pi * ((clientX ev - x0) * 0.01) / real (clientHeight c))),
             phi := jsub (phi (sphericalDelta c))
                      (Fin (2 * pi * ((clientY ev - y0) * 0.01) / real (clientHeight c)))\<rparr>) \<and>
     (currentState c = ROTATE \<and> enabled c \<longrightarrow>
        onMouseMove ev (cam, c) = update (cam, onMouseMove_switch ev cam c) \<and>
        theta (spherical (snd (onMouseMove ev (cam, c)))) =
          jadd (theta (setFromVector3
                  (applyQuaternion (sub (position cam) (target c)) up_rotation)))
               (jsub (theta (sphericalDelta c))
                  (Fin (2 * pi * ((clientX ev - x0) * 0.01) / real (clientHeight c)))) \<and>
        phi (spherical (snd (onMouseMove ev (cam, c)))) =
          Math_max (Fin 0.000001) (Math_min (jsub Math_PI (Fin 0.000001))
            (jadd (phi (setFromVector3
                     (applyQuaternion (sub (position cam) (target c)) up_rotation)))
                  (jsub (phi (sphericalDelta c))
                     (Fin (2 * pi * ((clientY ev - y0) * 0.01) / real (clientHeight c)))))) \<and>
        theta (sphericalDelta (snd (onMouseMove ev (cam, c)))) =
          (if enableDamping c
           then jmul (jsub (theta (sphericalDelta c))
                        (Fin (2 * pi * ((clientX ev - x0) * 0.01) / real (clientHeight c))))
                     (jsub (Fin 1) (dampingFactor c))
           else Fin 0) \<and>
        phi (sphericalDelta (snd (onMouseMove ev (cam, c)))) =
          (if enableDamping c
           then jmul (jsub (phi (sphericalDelta c))
                        (Fin (2 * pi * ((clientY ev - y0) * 0.01) / real (clientHeight c))))
                     (jsub (Fin 1) (dampingFactor c))
           else Fin 0)) \<and>
     sphericalDelta (onTouchMove_switch [(x, y)] c) =
       (sphericalDelta c)
         \<lparr>theta := jsub (theta (sphericalDelta c))
                     (Fin (2 * pi * ((x - x0) * 0.01) / real (clientHeight c))),
          phi := jsub (phi (sphericalDelta c))
                   (Fin (2 * pi * ((y - y0) * 0.01) / real (clientHeight c)))\<rparr> \<and>
     (enabled c \<longrightarrow> onTouchMove [(x, y)] c = onTouchMove_switch [(x, y)] c)"
proof -
  have sw: "sphericalDelta (onMouseMove_switch ev cam c) =
          (sphericalDelta c)
            \<lparr>theta := jsub (theta (sphericalDelta c))
                        (Fin (2 * pi * ((clientX ev - x0) * 0.01) / real (clientHeight c))),
             phi := jsub (phi (sphericalDelta c))
                      (Fin (2 * pi * ((clientY ev - y0) * 0.01) / real (clientHeight c)))\<rparr>"
    if "currentState c = ROTATE"
    using assms that
    by (simp add: onMouseMove_switch_def Let_def rotateLeft_def rotateUp_def Vector2_def
        subVectors2_def multiplyScalar2_def jsub_def Math_PI_def)
  have tc: "sphericalDelta (onTouchMove_switch [(x, y)] c) =
       (sphericalDelta c)
         \<lparr>theta := jsub (theta (sphericalDelta c))
                     (Fin (2 * pi * ((x - x0) * 0.01) / real (clientHeight c))),
          phi := jsub (phi (sphericalDelta c))
                   (Fin (2 * pi * ((y - y0) * 0.01) / real (clientHeight c)))\<rparr>"
    using assms
    by (simp add: Let_def rotateLeft_def rotateUp_def Vector2_def
        subVectors2_def multiplyScalar2_def jsub_def Math_PI_def)
  have th: "onTouchMove [(x, y)] c = onTouchMove_switch [(x, y)] c" if "enabled c"
    using that by (simp add: onTouchMove_def)
  have hd: "onMouseMove ev (cam, c) = update (cam, onMouseMove_switch ev cam c)" if "enabled c"
    using that by (simp add: onMouseMove_def)
  have up: "theta (spherical (snd (onMouseMove ev (cam, c)))) =
          jadd (theta (setFromVector3
                  (applyQuaternion (sub (position cam) (target c)) up_rotation)))
               (jsub (theta (sphericalDelta c))
                  (Fin (2 * pi * ((clientX ev - x0) * 0.01) / real (clientHeight c))))"
    "phi (spherical (snd (onMouseMove ev (cam, c)))) =
          Math_max (Fin 0.000001) (Math_min (jsub Math_PI (Fin 0.000001))
            (jadd (phi (setFromVector3
                     (applyQuaternion (sub (position cam) (target c)) up_rotation)))
                  (jsub (phi (sphericalDelta c))
                     (Fin (2 * pi * ((clientY ev - y0) * 0.01) / real (clientHeight c))))))"
    "theta (sphericalDelta (snd (onMouseMove ev (cam, c)))) =
          (if enableDamping c
           then jmul (jsub (theta (sphericalDelta c))
                        (Fin (2 * pi * ((clientX ev - x0) * 0.01) / real (clientHeight c))))
                     (jsub (Fin 1) (dampingFactor c))
           else Fin 0)"
    "phi (sphericalDelta (snd (onMouseMove ev (cam, c)))) =
          (if enableDamping c
           then jmul (jsub (phi (sphericalDelta c))
                        (Fin (2 * pi * ((clientY ev - y0) * 0.01) / real (clientHeight c))))
                     (jsub (Fin 1) (dampingFactor c))
           else Fin 0)"
    if "currentState c = ROTATE" "enabled c"
    using that
    by (simp_all add: hd theta_update phi_update sphericalDelta_update rotate_switch_keeps sw)
  show ?thesis
    using sw tc th hd up by blast
qed

theorem rotate_angle_witness:
  "rotateStart drag_start = Vector2 (Fin 0) (Fin 0) \<and> 0 < clientHeight drag_start \<and>
   currentState drag_start = ROTATE \<and> enabled drag_start \<and>
   sphericalDelta
     (onMouseMove_switch \<lparr>button = 0, clientX = 0, clientY = 100\<rparr> setupCamera drag_start) =
     \<lparr>radius = Fin 0, phi = Fin (- (pi / 50)), theta = Fin 0\<rparr> \<and>
   phi (sphericalDelta
     (snd (onMouseMove \<lparr>button = 0, clientX = 0, clientY = 100\<rparr> (setupCamera, drag_start)))) =
     Fin (- (pi / 50) * 0.95) \<and>
   sphericalDelta (onTouchMove_switch [(0, 100)] drag_start) =
     \<lparr>radius = Fin 0, phi = Fin (- (pi / 50)), theta = Fin 0\<rparr> \<and>
   onTouchMove [(0, 100)] drag_start = onTouchMove_switch [(0, 100)] drag_start"
proof -
  have a: "rotateStart drag_start = Vector2 (Fin 0) (Fin 0)"
    and b: "0 < clientHeight drag_start" and c: "currentState drag_start = ROTATE"
    and e: "enabled drag_start"
    by (simp_all add: drag_start_fields drag_start_more)
  note r = rotate_angle [OF a b, of "\<lparr>button = 0, clientX = 0, clientY = 100\<rparr>" setupCamera 0 100]
  have p1: "sphericalDelta
     (onMouseMove_switch \<lparr>button = 0, clientX = 0, clientY = 100\<rparr> setupCamera drag_start) =
     \<lparr>radius = Fin 0, phi = Fin (- (pi / 50)), theta = Fin 0\<rparr>"
    using r c by (simp add: drag_start_fields jsub_def)
  have p2: "phi (sphericalDelta
     (snd (onMouseMove \<lparr>button = 0, clientX = 0, clientY = 100\<rparr> (setupCamera, drag_start)))) =
     Fin (- (pi / 50) * 0.95)"
  proof -
    have "phi (sphericalDelta
       (snd (onMouseMove \<lparr>button = 0, clientX = 0, clientY = 100\<rparr> (setupCamera, drag_start)))) =
       (if enableDamping drag_start
        then jmul (jsub (phi (sphericalDelta drag_start))
               (Fin (2 * pi * ((clientY \<lparr>button = 0, clientX = 0, clientY = 100\<rparr> - 0) * 0.01) /
                  real (clientHeight drag_start))))
               (jsub (Fin 1) (dampingFactor drag_start))
        else Fin 0)"
      using r c e by blast
    then show ?thesis
      by (simp add: drag_start_fields drag_start_more jsub_def)
  qed
  have p3: "sphericalDelta (onTouchMove_switch [(0, 100)] drag_start) =
     \<lparr>radius = Fin 0, phi = Fin (- (pi / 50)), theta = Fin 0\<rparr>"
    using r by (simp add: drag_start_fields jsub_def)
  have p4: "onTouchMove [(0, 100)] drag_start = onTouchMove_switch [(0, 100)] drag_start"
    using r e by blast
  show ?thesis
    using a b c e p1 p2 p3 p4 by blast
qed

section \<open>The sliders clamp what they are given\<close>


lemma step_round_bounds:
  assumes "range_min r \<le> range_max r" and "0 < range_step r"
    and "range_min r \<le> y" and "y \<le> range_max r"
  shows "range_min r \<le> step_round r y \<and> step_round r y \<le> range_max r"
proof -
  define st where "st = range_step r"
  define q where "q = (y - range_min r) / st"
  define k where "k = \<lfloor>q + 1 / 2\<rfloor>"
  have st: "0 < st" using assms(2) by (simp add: st_def)
  have q0: "0 \<le> q" using assms(3) st by (simp add: q_def)
  have k0: "0 \<le> k" using q0 by (simp add: k_def)
  have ku: "real_of_int k \<le> q + 1 / 2" by (simp add: k_def)
  have qy: "q * st = y - range_min r" using st by (simp add: q_def)
  have sr: "step_round r y =
      (if range_max r < range_min r + real_of_int k * st
       then range_min r + real_of_int k * st - st else range_min r + real_of_int k * st)"
    using assms(1) by (simp add: step_round_def Let_def k_def q_def st_def)
  show ?thesis
  proof (cases "range_max r < range_min r + real_of_int k * st")
    case True
    have "k \<noteq> 0" using True assms(1) by auto
    then have k1: "1 \<le> k" using k0 by linarith
    then have "1 \<le> real_of_int k" by linarith
    then have "st * 1 \<le> st * real_of_int k" using st by (intro mult_left_mono) simp_all
    then have lo: "range_min r \<le> range_min r + real_of_int k * st - st"
      by (simp add: mult.commute)
    have "(real_of_int k - 1) * st \<le> (q - 1 / 2) * st"
      using ku st by (intro mult_right_mono) simp_all
    also have "\<dots> = y - range_min r - st / 2" using qy by (simp add: algebra_simps)
    finally have "real_of_int k * st - st \<le> y - range_min r - st / 2"
      by (simp add: algebra_simps)
    then have hi: "range_min r + real_of_int k * st - st \<le> range_max r"
      using assms(4) st by linarith
    show ?thesis using True lo hi by (simp add: sr)
  next
    case False
    have "0 \<le> real_of_int k * st" using k0 st by simp
    then show ?thesis using False by (simp add: sr)
  qed
qed

lemma value_of_bounds:
  assumes "range_min r \<le> range_max r" and "0 < range_step r"
  shows "range_min r \<le> value_of r raw \<and> value_of r raw \<le> range_max r"
proof -
  define x where "x = (case raw of None \<Rightarrow> default_value r | Some x \<Rightarrow> x)"
  define y where "y = (if x < range_min r then range_min r
               else if range_min r \<le> range_max r \<and> range_max r < x then range_max r
               else x)"
  have v: "value_of r raw = step_round r y"
    by (simp add: value_of_def Let_def x_def y_def)
  have "range_min r \<le> y" "y \<le> range_max r"
    using assms(1) by (auto simp: y_def)
  then show ?thesis
    unfolding v using step_round_bounds [OF assms] by blast
qed

lemma value_of_below:
  assumes "x < range_min r" and "0 < range_step r"
  shows "value_of r (Some x) = range_min r"
  using assms by (simp add: value_of_def step_round_def Let_def)

lemma value_of_above:
  assumes "range_min r \<le> range_max r" and "range_max r < x"
  shows "value_of r (Some x) = value_of r (Some (range_max r))"
  using assms by (simp add: value_of_def Let_def)

lemma planet_slider_max: "value_of planet_slider (Some 3) = 3"
  by (simp add: value_of_def planet_slider_def step_round_def Let_def)

text \<open>
  Claim C5. Every value given to a speed slider is stored, and stored inside the range
  of the slider: the global multiplier becomes the value of the global slider, which
  lies in \<open>[0, 5]\<close>, and the individual speed of an existing planet becomes the value of
  its slider, which lies in \<open>[0, 3]\<close>. A number below 0 is stored as 0; a number above
  the maximum is stored as the maximum itself is, and that is 3 for the slider of a
  planet. The slider element clamps; the listeners store what they read from it. The
  only other values the program assigns are the 1 both multipliers start with.
\<close>

theorem speed_sliders_clamp:
  assumes "map_of (planets s) key = Some p" and "0 < st"
  shows "globalSpeedMultiplier (globalSpeedSlider_input st raw s) =
           Fin (value_of (global_slider st) raw) \<and>
         0 \<le> value_of (global_slider st) raw \<and> value_of (global_slider st) raw \<le> 5 \<and>
         (lo < 0 \<longrightarrow> value_of (global_slider st) (Some lo) = 0) \<and>
         (5 < hi \<longrightarrow>
            value_of (global_slider st) (Some hi) = value_of (global_slider st) (Some 5)) \<and>
         map_option planets (planetSpeedSlider_input key raw s) =
           Some (AList.update key (p\<lparr>individualSpeed := Fin (value_of planet_slider raw)\<rparr>)
                   (planets s)) \<and>
         0 \<le> value_of planet_slider raw \<and> value_of planet_slider raw \<le> 3 \<and>
         (lo < 0 \<longrightarrow> value_of planet_slider (Some lo) = 0) \<and>
         (3 < hi \<longrightarrow> value_of planet_slider (Some hi) = 3) \<and>
         globalSpeedMultiplier (SolarSystem_new h) = Fin 1 \<and>
         map_option individualSpeed (map_of (planets (createPlanet k d rnd s0)) k) =
           Some (Fin 1)"
proof -
  have i1: "globalSpeedMultiplier (SolarSystem_new h) = Fin 1"
    by (simp add: SolarSystem_new_def Let_def)
  have i2: "map_option individualSpeed (map_of (planets (createPlanet k d rnd s0)) k) =
           Some (Fin 1)"
    by (simp add: createPlanet_def addEarthMoon_def Let_def update_conv')
  have g: "0 \<le> value_of (global_slider st) raw \<and> value_of (global_slider st) raw \<le> 5"
    using value_of_bounds [of "global_slider st" raw] assms(2) by (simp add: global_slider_def)
  have gl: "value_of (global_slider st) (Some lo) = 0" if "lo < 0"
    using value_of_below [of lo "global_slider st"] that assms(2) by (simp add: global_slider_def)
  have gh: "value_of (global_slider st) (Some hi) = value_of (global_slider st) (Some 5)"
    if "5 < hi"
    using value_of_above [of "global_slider st" hi] that by (simp add: global_slider_def)
  have q: "0 \<le> value_of planet_slider raw \<and> value_of planet_slider raw \<le> 3"
    using value_of_bounds [of planet_slider raw] by (simp add: planet_slider_def)
  have ql: "value_of planet_slider (Some lo) = 0" if "lo < 0"
    using value_of_below [of lo planet_slider] that by (simp add: planet_slider_def)
  have qh: "value_of planet_slider (Some hi) = 3" if "3 < hi"
    using value_of_above [of planet_slider hi] that planet_slider_max
    by (simp add: planet_slider_def)
  have st1: "globalSpeedMultiplier (globalSpeedSlider_input st raw s) =
           Fin (value_of (global_slider st) raw)"
    by (simp add: globalSpeedSlider_input_def onGlobalSpeedInput_def)
  have st2: "map_option planets (planetSpeedSlider_input key raw s) =
           Some (AList.update key (p\<lparr>individualSpeed := Fin (value_of planet_slider raw)\<rparr>)
                   (planets s))"
    using assms(1) by (simp add: planetSpeedSlider_input_def onPlanetSpeedInput_def)
  show ?thesis
    using g gl gh q ql qh st1 st2 i1 i2 by blast
qed

text \<open>Values the sliders hold after some assignments.\<close>

lemma global_slider_7: "value_of (global_slider (1 / 10)) (Some 7) = 5"
  by (simp add: value_of_def global_slider_def step_round_def Let_def)

lemma planet_slider_7: "value_of planet_slider (Some 7) = 3"
  by (simp add: value_of_def planet_slider_def step_round_def Let_def)

lemma slider_samples:
  "value_of planet_slider (Some 1.23) = 1.2"
  "value_of planet_slider (Some 1.25) = 1.3"
  "value_of planet_slider None = 1.5"
  "value_of planet_slider (Some (- 4)) = 0"
  "value_of (global_slider (3 / 10)) (Some 7) = 4.8"
  by (simp_all add: value_of_def planet_slider_def global_slider_def step_round_def
      default_value_def Let_def)


theorem speed_sliders_clamp_witness:
  "map_of (planets sun_and_earth) ''earth'' =
     Some \<lparr>mesh_position = Vector3 (Fin 24) (Fin 0) (Fin 0), mesh_rotation_y = Fin 0,
           orbitGroup_rotation_y = Fin 0, data = earth_data, angle = Fin 0,
           individualSpeed = Fin 1\<rparr> \<and>
   (0::real) < 1 / 10 \<and> (- 1::real) < 0 \<and> (5::real) < 7 \<and> (3::real) < 7 \<and>
   globalSpeedMultiplier (globalSpeedSlider_input (1 / 10) (Some 7) sun_and_earth) = Fin 5 \<and>
   map_option planets (planetSpeedSlider_input ''earth'' (Some 7) sun_and_earth) =
     Some [(''earth'', \<lparr>mesh_position = Vector3 (Fin 24) (Fin 0) (Fin 0), mesh_rotation_y = Fin 0,
                        orbitGroup_rotation_y = Fin 0, data = earth_data, angle = Fin 0,
                        individualSpeed = Fin 3\<rparr>)] \<and>
   value_of (global_slider (1 / 10)) (Some (- 1)) = 0 \<and>
   value_of planet_slider (Some (- 1)) = 0"
proof -
  have h: "map_of (planets sun_and_earth) ''earth'' =
     Some \<lparr>mesh_position = Vector3 (Fin 24) (Fin 0) (Fin 0), mesh_rotation_y = Fin 0,
           orbitGroup_rotation_y = Fin 0, data = earth_data, angle = Fin 0,
           individualSpeed = Fin 1\<rparr>"
    by (simp add: sun_and_earth_planets)
  have st: "(0::real) < 1 / 10" by simp
  have lo: "(- 1::real) < 0" and hi5: "(5::real) < 7" and hi3: "(3::real) < 7" by simp_all
  note t = speed_sliders_clamp [OF h st, where raw = "Some 7" and lo = "- 1" and hi = 7]
  have g7: "value_of (global_slider (1 / 10)) (Some 5) = 5"
    by (simp add: value_of_def global_slider_def step_round_def Let_def)
  have a: "globalSpeedMultiplier (globalSpeedSlider_input (1 / 10) (Some 7) sun_and_earth) =
      Fin (value_of (global_slider (1 / 10)) (Some 7))"
    and b: "value_of (global_slider (1 / 10)) (Some 7) = value_of (global_slider (1 / 10)) (Some 5)"
    and c: "map_option planets (planetSpeedSlider_input ''earth'' (Some 7) sun_and_earth) =
      Some (AList.update ''earth''
        (\<lparr>mesh_position = Vector3 (Fin 24) (Fin 0) (Fin 0), mesh_rotation_y = Fin 0,
           orbitGroup_rotation_y = Fin 0, data = earth_data, angle = Fin 0,
           individualSpeed = Fin 1\<rparr>\<lparr>individualSpeed := Fin (value_of planet_slider (Some 7))\<rparr>)
        (planets sun_and_earth))"
    and d: "value_of planet_slider (Some 7) = 3"
    and e: "value_of (global_slider (1 / 10)) (Some (- 1)) = 0"
    and f: "value_of planet_slider (Some (- 1)) = 0"
    using t lo hi5 hi3 by blast+
  have a': "globalSpeedMultiplier (globalSpeedSlider_input (1 / 10) (Some 7) sun_and_earth) = Fin 5"
    by (simp add: a b g7)
  have c': "map_option planets (planetSpeedSlider_input ''earth'' (Some 7) sun_and_earth) =
     Some [(''earth'', \<lparr>mesh_position = Vector3 (Fin 24) (Fin 0) (Fin 0), mesh_rotation_y = Fin 0,
                        orbitGroup_rotation_y = Fin 0, data = earth_data, angle = Fin 0,
                        individualSpeed = Fin 3\<rparr>)]"
    by (simp add: c d sun_and_earth_planets)
  show ?thesis
    using h st lo hi5 hi3 a' c' e f by blast
qed

section \<open>The moon in the scene\<close>













end
